theory Spec2Isabelle
  imports Main "HOL-Library.AList"
begin

section \<open>JavaScript values\<close>

text \<open>
  Request bodies, stored documents and response bodies are JavaScript values. Numbers are the
  integer-valued ones (seconds, nanoseconds and epoch milliseconds are integers); a string is a
  list of code units below 256. \<open>JDate t\<close> is a native \<open>Date\<close> whose \<open>getTime()\<close> is \<open>t\<close>.
  An object is an association list of its own properties in insertion order.
\<close>

datatype jsval =
    JUndefined
  | JNull
  | JBool bool
  | JNum int
  | JStr string
  | JDate int
  | JArr "jsval list"
  | JObj "(string \<times> jsval) list"

type_synonym obj = "(string \<times> jsval) list"

text \<open>\<open>d.k\<close> on an object: a missing property reads as \<open>undefined\<close>.\<close>

definition jget :: "obj \<Rightarrow> string \<Rightarrow> jsval" where
  "jget d k = (case map_of d k of None \<Rightarrow> JUndefined | Some v \<Rightarrow> v)"

text \<open>
  \<open>v.k\<close> for the property names the handlers read from a timestamp (the seconds and nanoseconds
  fields, with and without a leading underscore): primitives, dates and arrays have none of
  them. The handlers read a property only from a truthy value, so \<open>null\<close> and \<open>undefined\<close>
  never reach it.
\<close>

fun jprop :: "jsval \<Rightarrow> string \<Rightarrow> jsval" where
  "jprop (JObj d) k = jget d k"
| "jprop _ k = JUndefined"

text \<open>Truthiness, as \<open>if (v)\<close>, \<open>!v\<close> and \<open>v || w\<close> test it.\<close>

fun truthy :: "jsval \<Rightarrow> bool" where
  "truthy JUndefined = False"
| "truthy JNull = False"
| "truthy (JBool b) = b"
| "truthy (JNum n) = (n \<noteq> 0)"
| "truthy (JStr s) = (s \<noteq> [])"
| "truthy (JDate t) = True"
| "truthy (JArr xs) = True"
| "truthy (JObj d) = True"

text \<open>\<open>typeof v === "number"\<close>.\<close>

fun is_number :: "jsval \<Rightarrow> bool" where
  "is_number (JNum n) = True"
| "is_number _ = False"

text \<open>
  \<open>a === b\<close>: primitives compare by value, objects, arrays and dates by identity. The two
  sides compared by the handlers are a value read from the store and a value parsed from the
  request, which are never the same object.
\<close>

fun strict_eq :: "jsval \<Rightarrow> jsval \<Rightarrow> bool" where
  "strict_eq JUndefined JUndefined = True"
| "strict_eq JNull JNull = True"
| "strict_eq (JBool a) (JBool b) = (a = b)"
| "strict_eq (JNum a) (JNum b) = (a = b)"
| "strict_eq (JStr a) (JStr b) = (a = b)"
| "strict_eq _ _ = False"

text \<open>
  \<open>a % b\<close> on integers: the remainder of the division truncated towards zero, so it has
  the sign of \<open>a\<close>.
\<close>

definition js_rem :: "int \<Rightarrow> int \<Rightarrow> int" where
  "js_rem a b = sgn a * (\<bar>a\<bar> mod \<bar>b\<bar>)"

text \<open>\<open>String.prototype.trim\<close>: the white space of the code units below 256.\<close>

definition is_ws :: "char \<Rightarrow> bool" where
  "is_ws c = (c \<in> set [CHR 0x09, CHR 0x0A, CHR 0x0B, CHR 0x0C, CHR 0x0D, CHR 0x20, CHR 0xA0])"

definition trim :: "string \<Rightarrow> string" where
  "trim s = rev (dropWhile is_ws (rev (dropWhile is_ws s)))"

text \<open>\<open>String.prototype.includes\<close> with a string argument, and the spread of a string.\<close>

fun str_includes :: "string \<Rightarrow> string \<Rightarrow> bool" where
  "str_includes [] n = (n = [])"
| "str_includes (c # cs) n = (take (length n) (c # cs) = n \<or> str_includes cs n)"

definition str_spread :: "string \<Rightarrow> jsval list" where
  "str_spread s = map (\<lambda>c. JStr [c]) s"

text \<open>
  \<open>{ id: x, ...d }\<close>: the properties of \<open>d\<close> are assigned in order after \<open>id\<close>; assigning an
  existing key keeps its position.
\<close>

definition assign :: "obj \<Rightarrow> obj \<Rightarrow> obj" where
  "assign fs d = fold (\<lambda>(k, v). AList.update k v) fs d"

section \<open>Timestamp normalization\<close>

text \<open>
  The normalization is written out twice in the source, once in the handler of
  \<open>GET /projects/:projectId/messages\<close> (lines 225-237) and once in the handler of
  \<open>POST /projects/:projectId/messages\<close> (lines 347-360). Each copy is transcribed on its own.
\<close>

definition normalizeTimestamp_get :: "jsval \<Rightarrow> jsval" where
  "normalizeTimestamp_get ts =
     (if truthy ts then
        (if jprop ts ''_seconds'' \<noteq> JUndefined \<and> jprop ts ''_nanoseconds'' \<noteq> JUndefined then ts
         else if is_number (jprop ts ''seconds'') \<and> is_number (jprop ts ''nanoseconds'') then
           JObj [(''_seconds'', jprop ts ''seconds''), (''_nanoseconds'', jprop ts ''nanoseconds'')]
         else (case ts of
             JDate t \<Rightarrow> JObj [(''_seconds'', JNum (t div 1000)),
                               (''_nanoseconds'', JNum (js_rem t 1000 * 1000000))]
           | _ \<Rightarrow> JNull))
      else JNull)"

definition normalizeTimestamp_post :: "jsval \<Rightarrow> jsval" where
  "normalizeTimestamp_post ts =
     (if truthy ts then
        (if jprop ts ''_seconds'' \<noteq> JUndefined \<and> jprop ts ''_nanoseconds'' \<noteq> JUndefined then ts
         else if is_number (jprop ts ''seconds'') \<and> is_number (jprop ts ''nanoseconds'') then
           JObj [(''_seconds'', jprop ts ''seconds''), (''_nanoseconds'', jprop ts ''nanoseconds'')]
         else (case ts of
             JDate t \<Rightarrow> JObj [(''_seconds'', JNum (t div 1000)),
                               (''_nanoseconds'', JNum (js_rem t 1000 * 1000000))]
           | _ \<Rightarrow> JNull))
      else JNull)"

section \<open>The document store\<close>

text \<open>
  The store is the external collaborator: a collection of project documents keyed by project
  id, and message documents keyed by project id and message id (a message document can exist
  without its project document). Every call to the store is recorded in \<open>io_log\<close>, so that a
  handler that leaves the store record unchanged has made no call. The store is
  taken to accept every value it is given: its failures (network, quota, a value it refuses)
  are outside this model.

  How the store gives back a date that was written to it is left open: \<open>repr\<close> is the value
  read back for a written \<open>Date\<close> with the given epoch milliseconds. All other values are
  read back as written.
\<close>

datatype doc_path = ProjectDoc string | MessageDoc string string

datatype store_op =
    OpGet doc_path
  | OpSet doc_path
  | OpUpdate doc_path
  | OpAdd doc_path
  | OpDelete doc_path
  | OpQuery string

record store =
  projects :: "(string \<times> obj) list"
  messages :: "((string \<times> string) \<times> obj) list"
  io_log :: "store_op list"

definition logged :: "store_op \<Rightarrow> store \<Rightarrow> store" where
  "logged e st = st\<lparr>io_log := io_log st @ [e]\<rparr>"

definition store_value :: "(int \<Rightarrow> jsval) \<Rightarrow> jsval \<Rightarrow> jsval" where
  "store_value repr v = (case v of JDate t \<Rightarrow> repr t | _ \<Rightarrow> v)"

definition store_fields :: "(int \<Rightarrow> jsval) \<Rightarrow> obj \<Rightarrow> obj" where
  "store_fields repr d = map (\<lambda>(k, v). (k, store_value repr v)) d"

text \<open>\<open>db.collection("projects").doc(projectId).get()\<close>\<close>

definition project_get :: "string \<Rightarrow> store \<Rightarrow> obj option \<times> store" where
  "project_get pid st = (map_of (projects st) pid, logged (OpGet (ProjectDoc pid)) st)"

text \<open>\<open>projectRef.set(data)\<close>: overwrites the whole document.\<close>

definition project_set :: "(int \<Rightarrow> jsval) \<Rightarrow> string \<Rightarrow> obj \<Rightarrow> store \<Rightarrow> store" where
  "project_set repr pid d st =
     logged (OpSet (ProjectDoc pid))
       (st\<lparr>projects := AList.update pid (store_fields repr d) (projects st)\<rparr>)"

text \<open>
  \<open>projectRef.update(fields)\<close>: merges the fields into the existing document. The handlers
  call it only on a document they have just read.
\<close>

definition project_update :: "(int \<Rightarrow> jsval) \<Rightarrow> string \<Rightarrow> obj \<Rightarrow> store \<Rightarrow> store" where
  "project_update repr pid fs st =
     logged (OpUpdate (ProjectDoc pid))
       (st\<lparr>projects := AList.map_entry pid (assign (store_fields repr fs)) (projects st)\<rparr>)"

text \<open>
  \<open>collection("messages").add(data)\<close>: the store creates the document under an id it
  generates, here \<open>mid\<close>. The creation fails when a document with that id exists.
\<close>

definition message_add ::
  "(int \<Rightarrow> jsval) \<Rightarrow> string \<Rightarrow> string \<Rightarrow> obj \<Rightarrow> store \<Rightarrow> bool \<times> store" where
  "message_add repr pid mid d st =
     (if map_of (messages st) (pid, mid) \<noteq> None
      then (False, logged (OpAdd (MessageDoc pid mid)) st)
      else (True, logged (OpAdd (MessageDoc pid mid))
                    (st\<lparr>messages := messages st @ [((pid, mid), store_fields repr d)]\<rparr>)))"

definition message_get :: "string \<Rightarrow> string \<Rightarrow> store \<Rightarrow> obj option \<times> store" where
  "message_get pid mid st =
     (map_of (messages st) (pid, mid), logged (OpGet (MessageDoc pid mid)) st)"

definition message_update ::
  "(int \<Rightarrow> jsval) \<Rightarrow> string \<Rightarrow> string \<Rightarrow> obj \<Rightarrow> store \<Rightarrow> store" where
  "message_update repr pid mid fs st =
     logged (OpUpdate (MessageDoc pid mid))
       (st\<lparr>messages :=
             AList.map_entry (pid, mid) (assign (store_fields repr fs)) (messages st)\<rparr>)"

definition message_delete :: "string \<Rightarrow> string \<Rightarrow> store \<Rightarrow> store" where
  "message_delete pid mid st =
     logged (OpDelete (MessageDoc pid mid))
       (st\<lparr>messages := AList.delete (pid, mid) (messages st)\<rparr>)"

text \<open>
  \<open>collection("messages").orderBy("timestamp", "asc").get()\<close>: the documents of the project
  that have a \<open>timestamp\<close> field, ordered by the store's order \<open>le\<close> on the pair of the
  timestamp value and the document id.
\<close>

fun insert_by :: "('a \<Rightarrow> 'a \<Rightarrow> bool) \<Rightarrow> 'a \<Rightarrow> 'a list \<Rightarrow> 'a list" where
  "insert_by le x [] = [x]"
| "insert_by le x (y # ys) = (if le x y then x # y # ys else y # insert_by le x ys)"

definition sort_by :: "('a \<Rightarrow> 'a \<Rightarrow> bool) \<Rightarrow> 'a list \<Rightarrow> 'a list" where
  "sort_by le xs = foldr (insert_by le) xs []"

definition project_messages :: "string \<Rightarrow> store \<Rightarrow> (string \<times> obj) list" where
  "project_messages pid st =
     map (\<lambda>((p, mid), d). (mid, d)) (filter (\<lambda>((p, mid), d). p = pid) (messages st))"

definition order_key :: "string \<times> obj \<Rightarrow> jsval \<times> string" where
  "order_key e = (jget (snd e) ''timestamp'', fst e)"

definition messages_orderBy_timestamp ::
  "(jsval \<times> string \<Rightarrow> jsval \<times> string \<Rightarrow> bool) \<Rightarrow> string \<Rightarrow> store
     \<Rightarrow> (string \<times> obj) list \<times> store" where
  "messages_orderBy_timestamp le pid st =
     (sort_by (\<lambda>a b. le (order_key a) (order_key b))
        (filter (\<lambda>e. map_of (snd e) ''timestamp'' \<noteq> None) (project_messages pid st)),
      logged (OpQuery pid) st)"

section \<open>Requests and responses\<close>

record response =
  status :: nat
  body :: jsval

text \<open>\<open>res.status(code).json({ error: msg })\<close>\<close>

definition json_error :: "nat \<Rightarrow> string \<Rightarrow> response" where
  "json_error code msg = \<lparr>status = code, body = JObj [(''error'', JStr msg)]\<rparr>"

text \<open>\<open>res.json(v)\<close>\<close>

definition json_ok :: "jsval \<Rightarrow> response" where
  "json_ok v = \<lparr>status = 200, body = v\<rparr>"

text \<open>
  The \<open>body\<close> of a response is the value the handler gives to \<open>res.json\<close>. What goes out
  is its JSON text, and \<open>to_wire\<close> is the value a client reads from that text: a property
  whose value is \<open>undefined\<close> is left out of its object, \<open>undefined\<close> in an array becomes
  \<open>null\<close>, and a date becomes the string \<open>fmt t\<close>, its \<open>toISOString()\<close>, which is not
  modelled further.
\<close>

primrec to_wire :: "(int \<Rightarrow> string) \<Rightarrow> jsval \<Rightarrow> jsval" where
  "to_wire fmt JUndefined = JUndefined"
| "to_wire fmt JNull = JNull"
| "to_wire fmt (JBool b) = JBool b"
| "to_wire fmt (JNum n) = JNum n"
| "to_wire fmt (JStr s) = JStr s"
| "to_wire fmt (JDate t) = JStr (fmt t)"
| "to_wire fmt (JArr xs) =
     JArr (map (\<lambda>v. if v = JUndefined then JNull else v) (map (to_wire fmt) xs))"
| "to_wire fmt (JObj d) =
     JObj (filter (\<lambda>kv. snd kv \<noteq> JUndefined) (map (map_prod id (to_wire fmt)) d))"

text \<open>
  \<open>if (!projectId || projectId.trim() === "") return res.status(400)...\<close> on a route
  parameter, which is always a string.
\<close>

definition require_param :: "string \<Rightarrow> string \<Rightarrow> response + string" where
  "require_param v msg =
     (if v = [] \<or> trim v = [] then Inl (json_error 400 msg) else Inr v)"

text \<open>
  The same test on a field of the body or of the query, which may be any value. A truthy
  value that is not a string has no \<open>trim\<close> method: the call throws a \<open>TypeError\<close>, which the
  handler's \<open>catch\<close> turns into a 500.
\<close>

definition require_field :: "jsval \<Rightarrow> string \<Rightarrow> string \<Rightarrow> response + string" where
  "require_field v name msg =
     (if \<not> truthy v then Inl (json_error 400 msg)
      else (case v of
          JStr s \<Rightarrow> (if trim s = [] then Inl (json_error 400 msg) else Inr s)
        | _ \<Rightarrow> Inl (json_error 500 (''Server error: '' @ name @ ''.trim is not a function''))))"

section \<open>The handlers\<close>

text \<open>
  Each handler takes the route parameters, the parsed body or query, and the store, and gives
  the response and the store after it. \<open>now\<close> is the value of \<open>new Date()\<close> in epoch
  milliseconds and \<open>newId\<close> the id the store generates for an added document. The handlers
  below are those of the unnamed source file, which has all six routes; those of \<open>index.js\<close>
  follow with the prefix \<open>index\<close>.
\<close>

subsection \<open>GET /projects/:projectId/messages (lines 202-258)\<close>

text \<open>
  The object built for one document of the scan (lines 238-243), as it is given to
  \<open>res.json\<close>: \<open>senderId\<close> and \<open>content\<close> are \<open>undefined\<close> when the document has no such
  field, and are then left out of what is sent (\<open>to_wire\<close>).
\<close>

definition message_view_get :: "string \<times> obj \<Rightarrow> jsval" where
  "message_view_get e =
     (let d = snd e in
      JObj [(''id'', JStr (fst e)),
            (''senderId'', jget d ''senderId''),
            (''content'', jget d ''content''),
            (''timestamp'', normalizeTimestamp_get (jget d ''timestamp''))])"

definition listMessages ::
  "(jsval \<times> string \<Rightarrow> jsval \<times> string \<Rightarrow> bool) \<Rightarrow> string \<Rightarrow> store \<Rightarrow> response \<times> store" where
  "listMessages le projectId st =
     (case require_param projectId ''Project ID is required'' of
        Inl r \<Rightarrow> (r, st)
      | Inr _ \<Rightarrow>
          (let (projectDoc, st1) = project_get projectId st in
           case projectDoc of
             None \<Rightarrow> (json_ok (JArr []), st1)
           | Some _ \<Rightarrow>
               (let (docs, st2) = messages_orderBy_timestamp le projectId st1 in
                (json_ok (JArr (map message_view_get docs)), st2))))"

subsection \<open>GET /projects/:projectId/participants (lines 261-287)\<close>

definition getParticipants :: "string \<Rightarrow> store \<Rightarrow> response \<times> store" where
  "getParticipants projectId st =
     (case require_param projectId ''Project ID is required'' of
        Inl r \<Rightarrow> (r, st)
      | Inr _ \<Rightarrow>
          (let (projectDoc, st1) = project_get projectId st in
           case projectDoc of
             None \<Rightarrow> (json_ok (JObj [(''participants'', JArr [])]), st1)
           | Some projectData \<Rightarrow>
               (let p = jget projectData ''participants'';
                    participants = (if truthy p then p else JArr [])
                in (json_ok (JObj [(''participants'', participants)]), st1))))"

subsection \<open>POST /projects/:projectId/messages (lines 290-374)\<close>

text \<open>
  Lines 311-329, the same in both source files (\<open>index.js\<close> lines 297-315): create the
  project, or add the sender to its participants. \<open>senderId\<close> is the string of the request as
  it came, not trimmed. \<open>includes\<close> and the spread exist on an array and on a string; on any
  other truthy value the call of \<open>participants.includes\<close> throws. The result is the response
  of the \<open>catch\<close> block if it threw.
\<close>

definition ensureProjectForSender ::
  "(int \<Rightarrow> jsval) \<Rightarrow> int \<Rightarrow> string \<Rightarrow> string \<Rightarrow> store \<Rightarrow> response option \<times> store" where
  "ensureProjectForSender repr now projectId senderId st =
     (let (projectDoc, st1) = project_get projectId st in
      case projectDoc of
        None \<Rightarrow>
          (None, project_set repr projectId
                   [(''participants'', JArr [JStr senderId]), (''createdAt'', JDate now)] st1)
      | Some projectData \<Rightarrow>
          (let p = jget projectData ''participants'';
               participants = (if truthy p then p else JArr [])
           in case participants of
                JArr xs \<Rightarrow>
                  (if JStr senderId \<in> set xs then (None, st1)
                   else (None, project_update repr projectId
                                 [(''participants'', JArr (xs @ [JStr senderId]))] st1))
              | JStr s \<Rightarrow>
                  (if str_includes s senderId then (None, st1)
                   else (None, project_update repr projectId
                                 [(''participants'', JArr (str_spread s @ [JStr senderId]))] st1))
              | _ \<Rightarrow>
                  (Some (json_error 500 ''Server error: participants.includes is not a function''),
                   st1)))"

definition sendMessage ::
  "(int \<Rightarrow> jsval) \<Rightarrow> int \<Rightarrow> string \<Rightarrow> string \<Rightarrow> obj \<Rightarrow> store \<Rightarrow> response \<times> store" where
  "sendMessage repr now newId projectId reqbody st =
     (case require_param projectId ''Project ID is required'' of
        Inl r \<Rightarrow> (r, st)
      | Inr _ \<Rightarrow>
     (case require_field (jget reqbody ''senderId'') ''senderId'' ''Sender ID is required'' of
        Inl r \<Rightarrow> (r, st)
      | Inr senderId \<Rightarrow>
     (case require_field (jget reqbody ''content'') ''content'' ''Message content is required'' of
        Inl r \<Rightarrow> (r, st)
      | Inr content \<Rightarrow>
     (case ensureProjectForSender repr now projectId senderId st of
        (Some r, st2) \<Rightarrow> (r, st2)
      | (None, st2) \<Rightarrow>
          (let newMsgForSave = [(''senderId'', JStr (trim senderId)),
                                (''content'', JStr (trim content)),
                                (''timestamp'', JDate now)];
               (added, st3) = message_add repr projectId newId newMsgForSave st2
           in if \<not> added
              then (json_error 500 ''Server error: 6 ALREADY_EXISTS: Document already exists'', st3)
              else
                (let (savedSnap, st4) = message_get projectId newId st3;
                     savedData = (case savedSnap of Some d \<Rightarrow> d | None \<Rightarrow> []);
                     ts = jget savedData ''timestamp'';
                     normalizedTimestamp = normalizeTimestamp_post ts;
                     responseObj = JObj [(''id'', JStr newId),
                                         (''senderId'', jget savedData ''senderId''),
                                         (''content'', jget savedData ''content''),
                                         (''timestamp'', normalizedTimestamp)]
                 in (json_ok responseObj, st4)))))))"

subsection \<open>PUT /projects/:projectId/messages/:messageId (lines 377-429)\<close>

definition editMessage ::
  "(int \<Rightarrow> jsval) \<Rightarrow> int \<Rightarrow> string \<Rightarrow> string \<Rightarrow> obj \<Rightarrow> store \<Rightarrow> response \<times> store" where
  "editMessage repr now projectId messageId reqbody st =
     (case require_param projectId ''Project ID is required'' of
        Inl r \<Rightarrow> (r, st)
      | Inr _ \<Rightarrow>
     (case require_param messageId ''Message ID is required'' of
        Inl r \<Rightarrow> (r, st)
      | Inr _ \<Rightarrow>
     (case require_field (jget reqbody ''senderId'') ''senderId'' ''Sender ID is required'' of
        Inl r \<Rightarrow> (r, st)
      | Inr senderId \<Rightarrow>
     (case require_field (jget reqbody ''content'') ''content'' ''Message content is required'' of
        Inl r \<Rightarrow> (r, st)
      | Inr content \<Rightarrow>
          (let (messageDoc, st1) = message_get projectId messageId st in
           case messageDoc of
             None \<Rightarrow> (json_error 404 ''Message not found'', st1)
           | Some messageData \<Rightarrow>
               (if \<not> strict_eq (jget messageData ''senderId'') (JStr senderId)
                then (json_error 403 ''You can only edit your own messages'', st1)
                else
                  (let updatedMsg = [(''content'', JStr (trim content)),
                                     (''editedAt'', JDate now),
                                     (''edited'', JBool True)];
                       st2 = message_update repr projectId messageId updatedMsg st1;
                       (updatedDoc, st3) = message_get projectId messageId st2;
                       updatedData = (case updatedDoc of Some d \<Rightarrow> d | None \<Rightarrow> [])
                   in (json_ok (JObj (assign updatedData [(''id'', JStr messageId)])), st3))))))))"

subsection \<open>DELETE /projects/:projectId/messages/:messageId (lines 432-473)\<close>

definition deleteMessage :: "string \<Rightarrow> string \<Rightarrow> obj \<Rightarrow> store \<Rightarrow> response \<times> store" where
  "deleteMessage projectId messageId query st =
     (case require_param projectId ''Project ID is required'' of
        Inl r \<Rightarrow> (r, st)
      | Inr _ \<Rightarrow>
     (case require_param messageId ''Message ID is required'' of
        Inl r \<Rightarrow> (r, st)
      | Inr _ \<Rightarrow>
     (case require_field (jget query ''senderId'') ''senderId'' ''Sender ID is required'' of
        Inl r \<Rightarrow> (r, st)
      | Inr senderId \<Rightarrow>
          (let (messageDoc, st1) = message_get projectId messageId st in
           case messageDoc of
             None \<Rightarrow> (json_error 404 ''Message not found'', st1)
           | Some messageData \<Rightarrow>
               (if \<not> strict_eq (jget messageData ''senderId'') (JStr senderId)
                then (json_error 403 ''You can only delete your own messages'', st1)
                else
                  (let st2 = message_delete projectId messageId st1
                   in (json_ok (JObj [(''message'', JStr ''Message deleted successfully''),
                                      (''messageId'', JStr messageId)]), st2)))))))"

subsection \<open>POST /projects/:projectId/init (lines 476-504)\<close>

text \<open>
  The handler is the same in both source files (\<open>index.js\<close> lines 335-363). It reads
  \<open>participants\<close> from the body, with the empty array as the default when the body has
  none, and writes it as the roster when \<open>participants.length > 0\<close>, whatever kind of value
  it is; otherwise it writes the three default names.

  \<open>v.length\<close>: the number of elements of an array, the number of code units of a string,
  the \<open>length\<close> property of an object, \<open>undefined\<close> on a boolean, a number or a date.
  On \<open>null\<close> the read throws (\<open>undefined\<close> does not reach it).
\<close>

fun js_length :: "jsval \<Rightarrow> jsval option" where
  "js_length JUndefined = None"
| "js_length JNull = None"
| "js_length (JArr xs) = Some (JNum (int (length xs)))"
| "js_length (JStr s) = Some (JNum (int (length s)))"
| "js_length (JObj d) = Some (jget d ''length'')"
| "js_length _ = Some JUndefined"

text \<open>
  \<open>v > 0\<close>: \<open>undefined\<close> converts to \<open>NaN\<close> and \<open>null\<close> to \<open>0\<close>, neither of which is
  greater than \<open>0\<close>; \<open>true\<close> converts to \<open>1\<close>; a date to its time value. A string, an array
  or an object is first converted by the runtime (to a primitive, then by the floating point
  parse of the resulting string), which is not modelled: \<open>conv v\<close> stands for the outcome of
  \<open>v > 0\<close> on such a value, \<open>None\<close> when the conversion throws. Such a value can only be
  the \<open>length\<close> property of an object sent as \<open>participants\<close>.
\<close>

fun js_gt_zero :: "(jsval \<Rightarrow> bool option) \<Rightarrow> jsval \<Rightarrow> bool option" where
  "js_gt_zero conv JUndefined = Some False"
| "js_gt_zero conv JNull = Some False"
| "js_gt_zero conv (JBool b) = Some b"
| "js_gt_zero conv (JNum n) = Some (n > 0)"
| "js_gt_zero conv (JDate t) = Some (t > 0)"
| "js_gt_zero conv v = conv v"

definition initProject ::
  "(jsval \<Rightarrow> bool option) \<Rightarrow> (int \<Rightarrow> jsval) \<Rightarrow> int \<Rightarrow> string \<Rightarrow> obj \<Rightarrow> store
     \<Rightarrow> response \<times> store" where
  "initProject conv repr now projectId reqbody st =
     (let p = jget reqbody ''participants'';
          participants = (if p = JUndefined then JArr [] else p)
      in
      case require_param projectId ''Project ID is required'' of
        Inl r \<Rightarrow> (r, st)
      | Inr _ \<Rightarrow>
          (case js_length participants of
             None \<Rightarrow>
               (json_error 500
                  ''Server error: Cannot read properties of null (reading 'length')'', st)
           | Some len \<Rightarrow>
               (case js_gt_zero conv len of
                  None \<Rightarrow>
                    (json_error 500 ''Server error: Cannot convert object to primitive value'', st)
                | Some nonempty \<Rightarrow>
                    (let written = (if nonempty then participants
                                    else JArr [JStr ''user1'', JStr ''user2'', JStr ''admin'']);
                         st1 = project_set repr projectId
                                 [(''participants'', written),
                                  (''createdAt'', JDate now),
                                  (''description'', JStr ''Test project created via API'')] st
                     in (json_ok (JObj [(''message'', JStr ''Project initialized successfully''),
                                        (''projectId'', JStr projectId),
                                        (''participants'', written)]), st1)))))"

subsection \<open>The handlers of index.js\<close>

text \<open>\<open>GET /projects/:projectId/participants\<close>, \<open>index.js\<close> lines 202-229.\<close>

definition index_getParticipants :: "string \<Rightarrow> store \<Rightarrow> response \<times> store" where
  "index_getParticipants projectId st =
     (case require_param projectId ''Project ID is required'' of
        Inl r \<Rightarrow> (r, st)
      | Inr _ \<Rightarrow>
          (let (projectDoc, st1) = project_get projectId st in
           case projectDoc of
             None \<Rightarrow>
               (json_error 404 ''Project not found. Make sure the project exists in Firestore.'',
                st1)
           | Some projectData \<Rightarrow>
               (let p = jget projectData ''participants'';
                    participants = (if truthy p then p else JArr [])
                in (json_ok (JObj [(''participants'', participants)]), st1))))"

text \<open>\<open>GET /projects/:projectId/messages\<close>, \<open>index.js\<close> lines 232-273.\<close>

definition index_listMessages ::
  "(jsval \<times> string \<Rightarrow> jsval \<times> string \<Rightarrow> bool) \<Rightarrow> string \<Rightarrow> store \<Rightarrow> response \<times> store" where
  "index_listMessages le projectId st =
     (case require_param projectId ''Project ID is required'' of
        Inl r \<Rightarrow> (r, st)
      | Inr _ \<Rightarrow>
          (let (projectDoc, st1) = project_get projectId st in
           case projectDoc of
             None \<Rightarrow>
               (json_error 404 ''Project not found. Make sure the project exists in Firestore.'',
                st1)
           | Some _ \<Rightarrow>
               (let (docs, st2) = messages_orderBy_timestamp le projectId st1 in
                (json_ok (JArr (map (\<lambda>e. JObj (assign (snd e) [(''id'', JStr (fst e))])) docs)),
                 st2))))"

text \<open>\<open>POST /projects/:projectId/messages\<close>, \<open>index.js\<close> lines 276-332.\<close>

definition index_sendMessage ::
  "(int \<Rightarrow> jsval) \<Rightarrow> int \<Rightarrow> string \<Rightarrow> string \<Rightarrow> obj \<Rightarrow> store \<Rightarrow> response \<times> store" where
  "index_sendMessage repr now newId projectId reqbody st =
     (case require_param projectId ''Project ID is required'' of
        Inl r \<Rightarrow> (r, st)
      | Inr _ \<Rightarrow>
     (case require_field (jget reqbody ''senderId'') ''senderId'' ''Sender ID is required'' of
        Inl r \<Rightarrow> (r, st)
      | Inr senderId \<Rightarrow>
     (case require_field (jget reqbody ''content'') ''content'' ''Message content is required'' of
        Inl r \<Rightarrow> (r, st)
      | Inr content \<Rightarrow>
     (case ensureProjectForSender repr now projectId senderId st of
        (Some r, st2) \<Rightarrow> (r, st2)
      | (None, st2) \<Rightarrow>
          (let newMsg = [(''senderId'', JStr (trim senderId)),
                         (''content'', JStr (trim content)),
                         (''timestamp'', JDate now)];
               (added, st3) = message_add repr projectId newId newMsg st2
           in if \<not> added
              then (json_error 500 ''Server error: 6 ALREADY_EXISTS: Document already exists'', st3)
              else (json_ok (JObj (assign newMsg [(''id'', JStr newId)])), st3))))))"

section \<open>Notions used by the statements\<close>

subsection \<open>Sequences of requests\<close>

text \<open>
  The router: one constructor per route, with the route parameters and the parsed body or
  query. A call is a request together with the time at which it is served and the id the
  store would generate for a document added while serving it.
\<close>

datatype request =
    GetMessages string
  | GetParticipants string
  | PostMessage string obj
  | PutMessage string string obj
  | DeleteMessage string string obj
  | PostInit string obj

type_synonym call = "int \<times> string \<times> request"

fun handle ::
  "(jsval \<Rightarrow> bool option) \<Rightarrow> (int \<Rightarrow> jsval)
     \<Rightarrow> (jsval \<times> string \<Rightarrow> jsval \<times> string \<Rightarrow> bool) \<Rightarrow> call \<Rightarrow> store
     \<Rightarrow> response \<times> store" where
  "handle conv repr le (now, newId, GetMessages p) st = listMessages le p st"
| "handle conv repr le (now, newId, GetParticipants p) st = getParticipants p st"
| "handle conv repr le (now, newId, PostMessage p b) st = sendMessage repr now newId p b st"
| "handle conv repr le (now, newId, PutMessage p m b) st = editMessage repr now p m b st"
| "handle conv repr le (now, newId, DeleteMessage p m q) st = deleteMessage p m q st"
| "handle conv repr le (now, newId, PostInit p b) st = initProject conv repr now p b st"

text \<open>
  Requests are served one after the other, each on the store the previous one left.
\<close>

fun run ::
  "(jsval \<Rightarrow> bool option) \<Rightarrow> (int \<Rightarrow> jsval)
     \<Rightarrow> (jsval \<times> string \<Rightarrow> jsval \<times> string \<Rightarrow> bool) \<Rightarrow> call list \<Rightarrow> store
     \<Rightarrow> response list \<times> store" where
  "run conv repr le [] st = ([], st)"
| "run conv repr le (c # cs) st =
     (let (r, st1) = handle conv repr le c st;
          (rs, st2) = run conv repr le cs st1
      in (r # rs, st2))"

subsection \<open>Missing and blank fields\<close>

text \<open>
  A route parameter is blank when nothing is left of it after trimming (the empty string
  included). A field of the body or the query is missing or blank when it is \<open>undefined\<close>,
  \<open>null\<close>, or a string of which nothing is left after trimming.
\<close>

definition blank_param :: "string \<Rightarrow> bool" where
  "blank_param s = (trim s = [])"



subsection \<open>The roster of a project\<close>

text \<open>
  The participants the store holds for a project, as
  \<open>GET /projects/:projectId/participants\<close> reports them: the \<open>participants\<close> field of the
  project document, or the empty array when the project or the field is absent.
\<close>

definition roster :: "store \<Rightarrow> string \<Rightarrow> jsval" where
  "roster st pid =
     (case map_of (projects st) pid of
        None \<Rightarrow> JArr []
      | Some d \<Rightarrow> (let p = jget d ''participants'' in if truthy p then p else JArr []))"

text \<open>
  An init is plain when its \<open>participants\<close> is an array or absent. The roster a plain init
  writes: the supplied array, or the three default names when none or an empty one was
  supplied.
\<close>

fun array_or_absent :: "jsval \<Rightarrow> bool" where
  "array_or_absent JUndefined = True"
| "array_or_absent (JArr xs) = True"
| "array_or_absent _ = False"

definition init_roster :: "jsval \<Rightarrow> jsval list" where
  "init_roster p =
     (case p of
        JArr (x # xs) \<Rightarrow> x # xs
      | _ \<Rightarrow> [JStr ''user1'', JStr ''user2'', JStr ''admin''])"

text \<open>
  A sender id is trimmed when it is a string with no white space at either end. A call is
  plain for a project when, if it is an init of the project, the init is plain, and, if it
  is a send into the project, its sender id is trimmed.
\<close>

fun trimmed_sender :: "jsval \<Rightarrow> bool" where
  "trimmed_sender (JStr s) = (trim s = s)"
| "trimmed_sender _ = False"

fun plain_call :: "string \<Rightarrow> call \<Rightarrow> bool" where
  "plain_call pid (now, newId, PostInit p reqbody) =
     (if p = pid then array_or_absent (jget reqbody ''participants'') else True)"
| "plain_call pid (now, newId, PostMessage p reqbody) =
     (if p = pid then trimmed_sender (jget reqbody ''senderId'') else True)"
| "plain_call pid c = True"

text \<open>
  What a sequence of calls says about the roster of a project, read off the calls alone: the
  roster written by the most recent init (the roster at the start if there was none), and the
  \<open>senderId\<close>s of the sends into the project since then, as they were sent.
\<close>

fun roster_history ::
  "string \<Rightarrow> jsval list \<times> jsval list \<Rightarrow> call list \<Rightarrow> jsval list \<times> jsval list" where
  "roster_history pid (b, ss) [] = (b, ss)"
| "roster_history pid (b, ss) ((now, newId, PostInit p reqbody) # cs) =
     (if p = pid then roster_history pid (init_roster (jget reqbody ''participants''), []) cs
      else roster_history pid (b, ss) cs)"
| "roster_history pid (b, ss) ((now, newId, PostMessage p reqbody) # cs) =
     (if p = pid then roster_history pid (b, ss @ [jget reqbody ''senderId'']) cs
      else roster_history pid (b, ss) cs)"
| "roster_history pid (b, ss) (c # cs) = roster_history pid (b, ss) cs"

text \<open>
  The elements of a list, each once, in the order of their first occurrence.
\<close>

definition first_occurrences :: "'a list \<Rightarrow> 'a list" where
  "first_occurrences xs = rev (remdups (rev xs))"

definition roster_of_history :: "jsval list \<times> jsval list \<Rightarrow> jsval list" where
  "roster_of_history h = fst h @ first_occurrences (filter (\<lambda>x. x \<notin> set (fst h)) (snd h))"

definition expected_roster :: "string \<Rightarrow> jsval list \<Rightarrow> call list \<Rightarrow> jsval list" where
  "expected_roster pid r0 cs = roster_of_history (roster_history pid (r0, []) cs)"

text \<open>
  The roster as the specification words it: the \<open>senderId\<close>s of all sends into the project,
  together with the roster supplied at the most recent init, without duplicates.
\<close>

fun senders_of :: "string \<Rightarrow> call list \<Rightarrow> jsval list" where
  "senders_of pid [] = []"
| "senders_of pid ((now, newId, PostMessage p reqbody) # cs) =
     (if p = pid then jget reqbody ''senderId'' # senders_of pid cs else senders_of pid cs)"
| "senders_of pid (c # cs) = senders_of pid cs"

fun last_init_supplied :: "string \<Rightarrow> jsval list \<Rightarrow> call list \<Rightarrow> jsval list" where
  "last_init_supplied pid r [] = r"
| "last_init_supplied pid r ((now, newId, PostInit p reqbody) # cs) =
     (if p = pid
      then last_init_supplied pid
             (case jget reqbody ''participants'' of JArr xs \<Rightarrow> xs | _ \<Rightarrow> []) cs
      else last_init_supplied pid r cs)"
| "last_init_supplied pid r (c # cs) = last_init_supplied pid r cs"

definition roster_as_claimed :: "string \<Rightarrow> call list \<Rightarrow> store \<Rightarrow> bool" where
  "roster_as_claimed pid cs st' =
     (case roster st' pid of
        JArr ps \<Rightarrow> distinct ps
                   \<and> set ps = set (senders_of pid cs) \<union> set (last_init_supplied pid [] cs)
      | _ \<Rightarrow> False)"

subsection \<open>What a listing shows of a record\<close>




subsection \<open>Sample stores and requests\<close>

definition empty_store :: store where
  "empty_store = \<lparr>projects = [], messages = [], io_log = []\<rparr>"

text \<open>
  One project with one message by \<open>alice\<close>, whose timestamp has the second accepted shape.
\<close>

definition sample_store :: store where
  "sample_store =
     \<lparr>projects = [(''p1'', [(''participants'', JArr [JStr ''alice'']),
                            (''createdAt'', JObj [(''_seconds'', JNum 1), (''_nanoseconds'', JNum 0)])])],
      messages = [((''p1'', ''m1''),
                   [(''senderId'', JStr ''alice''), (''content'', JStr ''hi''),
                    (''timestamp'', JObj [(''seconds'', JNum 5), (''nanoseconds'', JNum 7)])])],
      io_log = []\<rparr>"


text \<open>
  Values for the parameters the samples never reach: the conversion of a string, array or
  object in \<open>v > 0\<close>, and the text of a date.
\<close>

definition sample_gt_zero :: "jsval \<Rightarrow> bool option" where
  "sample_gt_zero v = Some False"


text \<open>
  An order of the scan under which the documents come in the order they were added.
\<close>

definition insertion_order :: "jsval \<times> string \<Rightarrow> jsval \<times> string \<Rightarrow> bool" where
  "insertion_order a b = True"

definition overwriting_calls :: "call list" where
  "overwriting_calls =
     [(1, ''m1'', PostMessage ''p1'' [(''senderId'', JStr ''alice''), (''content'', JStr ''hi'')]),
      (2, ''m2'', PostInit ''p1'' [(''participants'', JArr [JStr ''bob''])])]"

definition sample_calls :: "call list" where
  "sample_calls =
     [(1, ''m1'', PostMessage ''p1'' [(''senderId'', JStr ''alice''), (''content'', JStr ''hi'')]),
      (2, ''m2'', PostInit ''p1'' [(''participants'', JArr [JStr ''carol''])]),
      (3, ''m3'', PostMessage ''p1'' [(''senderId'', JStr ''bob''), (''content'', JStr ''hi'')]),
      (4, ''m4'', PostMessage ''p1'' [(''senderId'', JStr ''bob''), (''content'', JStr ''hi'')]),
      (5, ''m5'', GetParticipants ''p1'')]"

section \<open>Facts about the handlers\<close>

subsection \<open>Responses and validation\<close>

lemma trim_Nil [simp]: "trim [] = []" by (simp add: trim_def)

lemma status_json_error [simp]: "status (json_error c m) = c"
  by (simp add: json_error_def)

lemma status_json_ok [simp]: "status (json_ok v) = 200"
  by (simp add: json_ok_def)

lemma body_json_ok [simp]: "body (json_ok v) = v"
  by (simp add: json_ok_def)

lemma require_param_if:
  "require_param p msg = (if blank_param p then Inl (json_error 400 msg) else Inr p)"
  by (auto simp add: require_param_def blank_param_def)



lemma require_field_Inr:
  "require_field v name msg = Inr s \<longleftrightarrow> v = JStr s \<and> trim s \<noteq> []"
  by (cases v) (auto simp add: require_field_def)




subsection \<open>Edit and delete, once the fields are valid\<close>

lemma strict_eq_JStr [simp]: "strict_eq v (JStr s) \<longleftrightarrow> v = JStr s"
  by (cases v) auto

lemma require_field_JStr:
  "trim s \<noteq> [] \<Longrightarrow> require_field (JStr s) name msg = Inr s"
  by (auto simp add: require_field_def)

lemma map_of_delete_self [simp]: "map_of (AList.delete k al) k = None"
  by (simp add: delete_conv')

lemma edit_outcome:
  assumes "\<not> blank_param projectId" "\<not> blank_param messageId"
    and "jget reqbody ''senderId'' = JStr senderId" "trim senderId \<noteq> []"
    and "jget reqbody ''content'' = JStr content" "trim content \<noteq> []"
  shows "editMessage repr now projectId messageId reqbody st =
     (case map_of (messages st) (projectId, messageId) of
        None \<Rightarrow> (json_error 404 ''Message not found'',
                  logged (OpGet (MessageDoc projectId messageId)) st)
      | Some d \<Rightarrow>
          if jget d ''senderId'' \<noteq> JStr senderId
          then (json_error 403 ''You can only edit your own messages'',
                logged (OpGet (MessageDoc projectId messageId)) st)
          else
            (let st2 = message_update repr projectId messageId
                         [(''content'', JStr (trim content)), (''editedAt'', JDate now),
                          (''edited'', JBool True)]
                         (logged (OpGet (MessageDoc projectId messageId)) st);
                 d' = (case map_of (messages st2) (projectId, messageId) of
                         Some d' \<Rightarrow> d' | None \<Rightarrow> [])
             in (json_ok (JObj (assign d' [(''id'', JStr messageId)])),
                 logged (OpGet (MessageDoc projectId messageId)) st2)))"
  using assms
  by (simp add: editMessage_def require_param_if require_field_JStr message_get_def logged_def
      Let_def split: option.splits)

lemma delete_outcome:
  assumes "\<not> blank_param projectId" "\<not> blank_param messageId"
    and "jget query ''senderId'' = JStr senderId" "trim senderId \<noteq> []"
  shows "deleteMessage projectId messageId query st =
     (case map_of (messages st) (projectId, messageId) of
        None \<Rightarrow> (json_error 404 ''Message not found'',
                  logged (OpGet (MessageDoc projectId messageId)) st)
      | Some d \<Rightarrow>
          if jget d ''senderId'' \<noteq> JStr senderId
          then (json_error 403 ''You can only delete your own messages'',
                logged (OpGet (MessageDoc projectId messageId)) st)
          else
            (json_ok (JObj [(''message'', JStr ''Message deleted successfully''),
                            (''messageId'', JStr messageId)]),
             message_delete projectId messageId
               (logged (OpGet (MessageDoc projectId messageId)) st)))"
  using assms
  by (simp add: deleteMessage_def require_param_if require_field_JStr message_get_def
      Let_def split: option.splits)

lemma logged_simps [simp]:
  "projects (logged e st) = projects st"
  "messages (logged e st) = messages st"
  "io_log (logged e st) = io_log st @ [e]"
  by (simp_all add: logged_def)

lemma message_delete_simps [simp]:
  "projects (message_delete p m st) = projects st"
  "messages (message_delete p m st) = AList.delete (p, m) (messages st)"
  "io_log (message_delete p m st) = io_log st @ [OpDelete (MessageDoc p m)]"
  by (simp_all add: message_delete_def)

lemma message_update_simps [simp]:
  "projects (message_update repr p m fs st) = projects st"
  "messages (message_update repr p m fs st)
     = AList.map_entry (p, m) (assign (store_fields repr fs)) (messages st)"
  "io_log (message_update repr p m fs st) = io_log st @ [OpUpdate (MessageDoc p m)]"
  by (simp_all add: message_update_def)

subsection \<open>Reads of a project that does not exist\<close>

lemma unknown_project_reads_empty:
  assumes "\<not> blank_param projectId" and "map_of (projects st) projectId = None"
  shows "listMessages le projectId st
           = (json_ok (JArr []), logged (OpGet (ProjectDoc projectId)) st)"
    and "getParticipants projectId st
           = (json_ok (JObj [(''participants'', JArr [])]),
              logged (OpGet (ProjectDoc projectId)) st)"
  using assms
  by (simp_all add: listMessages_def getParticipants_def require_param_if project_get_def)

lemma not_blank_ghost: "\<not> blank_param ''ghost''"
  by (simp add: blank_param_def trim_def is_ws_def)

subsection \<open>Assigning fields to an object\<close>

lemma map_of_assign: "map_of (assign fs d) = map_of d ++ map_of (rev fs)"
proof (induction fs arbitrary: d)
  case Nil
  show ?case by (simp add: assign_def)
next
  case (Cons f fs)
  obtain k v where f: "f = (k, v)" by (cases f)
  have "assign (f # fs) d = assign fs (AList.update k v d)"
    by (simp add: assign_def f)
  then show ?case
    by (simp add: Cons.IH update_conv' f map_add_def fun_eq_iff split: option.splits)
qed

lemma jget_assign:
  "jget (assign fs d) k = (case map_of (rev fs) k of Some v \<Rightarrow> v | None \<Rightarrow> jget d k)"
  by (simp add: jget_def map_of_assign map_add_def split: option.splits)

lemma distinct_assign:
  "distinct (map fst d) \<Longrightarrow> distinct (map fst (assign fs d))"
proof (induction fs arbitrary: d)
  case Nil
  then show ?case by (simp add: assign_def)
next
  case (Cons f fs)
  obtain k v where f: "f = (k, v)" by (cases f)
  have "assign (f # fs) d = assign fs (AList.update k v d)"
    by (simp add: assign_def f)
  with Cons show ?case by (simp add: distinct_update)
qed

lemma map_of_rev_distinct: "distinct (map fst xs) \<Longrightarrow> map_of (rev xs) = map_of xs"
proof (induction xs)
  case Nil
  show ?case by simp
next
  case (Cons x xs)
  obtain k v where x: "x = (k, v)" by (cases x)
  from Cons.prems have notin: "map_of xs k = None"
    by (simp add: x map_of_eq_None_iff)
  from Cons have IH: "map_of (rev xs) = map_of xs" by simp
  show ?case
    using notin by (auto simp add: x IH map_add_def fun_eq_iff split: option.splits)
qed

lemma jget_spread_id:
  assumes "distinct (map fst d)" and "k \<noteq> ''id''"
  shows "jget (assign d [(''id'', v)]) k = jget d k"
  using assms by (simp add: jget_assign map_of_rev_distinct) (simp add: jget_def split: option.splits)

lemma not_blank_samples [simp]:
  "\<not> blank_param ''p1''" "\<not> blank_param ''m1''" "\<not> blank_param ''m9''"
  "trim ''alice'' = ''alice''" "trim ''bob'' = ''bob''" "trim ''hi'' = ''hi''"
  "trim '' bye '' = ''bye''" "blank_param ''  ''" "trim '' alice'' = ''alice''"
  by (simp_all add: blank_param_def trim_def is_ws_def)

subsection \<open>The two copies of the normalization\<close>

lemma js_rem_nonneg: "0 \<le> t \<Longrightarrow> js_rem t 1000 = t mod 1000"
  by (cases "t = 0") (simp_all add: js_rem_def)

lemma normalizeTimestamp_post_eq_get: "normalizeTimestamp_post = normalizeTimestamp_get"
  by (rule ext) (simp add: normalizeTimestamp_post_def normalizeTimestamp_get_def)

lemma normalizeTimestamp_shapes:
  "(jget d ''_seconds'' \<noteq> JUndefined \<and> jget d ''_nanoseconds'' \<noteq> JUndefined
      \<longrightarrow> normalizeTimestamp_get (JObj d) = JObj d)
   \<and> ((jget d ''_seconds'' = JUndefined \<or> jget d ''_nanoseconds'' = JUndefined)
        \<and> jget d ''seconds'' = JNum s \<and> jget d ''nanoseconds'' = JNum n
      \<longrightarrow> normalizeTimestamp_get (JObj d) = JObj [(''_seconds'', JNum s), (''_nanoseconds'', JNum n)])
   \<and> (0 \<le> t \<longrightarrow> normalizeTimestamp_get (JDate t)
          = JObj [(''_seconds'', JNum (t div 1000)), (''_nanoseconds'', JNum (t mod 1000 * 1000000))])
   \<and> normalizeTimestamp_get JUndefined = JNull
   \<and> normalizeTimestamp_get JNull = JNull"
  by (auto simp add: normalizeTimestamp_get_def js_rem_nonneg)

subsection \<open>A successful send\<close>

lemma project_set_simps [simp]:
  "projects (project_set repr p d st) = AList.update p (store_fields repr d) (projects st)"
  "messages (project_set repr p d st) = messages st"
  "io_log (project_set repr p d st) = io_log st @ [OpSet (ProjectDoc p)]"
  by (simp_all add: project_set_def)

lemma project_update_simps [simp]:
  "projects (project_update repr p fs st)
     = AList.map_entry p (assign (store_fields repr fs)) (projects st)"
  "messages (project_update repr p fs st) = messages st"
  "io_log (project_update repr p fs st) = io_log st @ [OpUpdate (ProjectDoc p)]"
  by (simp_all add: project_update_def)

lemma store_fields_simps [simp]:
  "store_fields repr [] = []"
  "store_fields repr ((k, v) # d) = (k, store_value repr v) # store_fields repr d"
  by (simp_all add: store_fields_def)

lemma store_value_simps [simp]:
  "store_value repr (JDate t) = repr t"
  "store_value repr (JStr s) = JStr s"
  "store_value repr (JArr xs) = JArr xs"
  "store_value repr (JBool b) = JBool b"
  by (simp_all add: store_value_def)

lemma ensure_messages:
  "ensureProjectForSender repr now projectId senderId st = (r, st2)
   \<Longrightarrow> messages st2 = messages st"
  by (auto simp add: ensureProjectForSender_def project_get_def Let_def
      split: option.splits jsval.splits if_splits)

lemma ensure_project_exists:
  "ensureProjectForSender repr now projectId senderId st = (None, st2)
   \<Longrightarrow> map_of (projects st2) projectId \<noteq> None"
  by (auto simp add: ensureProjectForSender_def project_get_def Let_def update_conv'
      map_of_map_entry split: option.splits jsval.splits if_splits)

lemma set_insert_by [simp]: "set (insert_by le x xs) = insert x (set xs)"
  by (induction xs) auto

lemma set_sort_by [simp]: "set (sort_by le xs) = set xs"
  by (induction xs) (simp_all add: sort_by_def)

lemma send_success:
  assumes ok: "status (fst (sendMessage repr now newId projectId reqbody st)) = 200"
  obtains senderId content st2 where
    "\<not> blank_param projectId"
    "jget reqbody ''senderId'' = JStr senderId" "trim senderId \<noteq> []"
    "jget reqbody ''content'' = JStr content" "trim content \<noteq> []"
    "ensureProjectForSender repr now projectId senderId st = (None, st2)"
    "map_of (messages st) (projectId, newId) = None"
    "sendMessage repr now newId projectId reqbody st =
       (json_ok (JObj [(''id'', JStr newId), (''senderId'', JStr (trim senderId)),
                       (''content'', JStr (trim content)),
                       (''timestamp'', normalizeTimestamp_post (repr now))]),
        logged (OpGet (MessageDoc projectId newId))
          (logged (OpAdd (MessageDoc projectId newId))
             (st2\<lparr>messages := messages st @
                  [((projectId, newId),
                    [(''senderId'', JStr (trim senderId)), (''content'', JStr (trim content)),
                     (''timestamp'', repr now)])]\<rparr>)))"
proof -
  from ok have nb: "\<not> blank_param projectId"
    by (auto simp add: sendMessage_def require_param_if)
  from ok nb obtain senderId where s: "require_field (jget reqbody ''senderId'') ''senderId''
       ''Sender ID is required'' = Inr senderId"
    by (cases "require_field (jget reqbody ''senderId'') ''senderId'' ''Sender ID is required''")
       (auto simp add: sendMessage_def require_param_if require_field_def
         split: if_splits jsval.splits)
  from ok nb s obtain content where c: "require_field (jget reqbody ''content'') ''content''
       ''Message content is required'' = Inr content"
    by (cases "require_field (jget reqbody ''content'') ''content'' ''Message content is required''")
       (auto simp add: sendMessage_def require_param_if require_field_def
         split: if_splits jsval.splits)
  obtain r st2 where e: "ensureProjectForSender repr now projectId senderId st = (r, st2)"
    by (cases "ensureProjectForSender repr now projectId senderId st")
  from e have m: "messages st2 = messages st" by (rule ensure_messages)
  from ok nb s c e have r: "r = None"
    by (cases r) (auto simp add: sendMessage_def require_param_if ensureProjectForSender_def
        project_get_def Let_def split: option.splits jsval.splits if_splits)
  from ok nb s c e r m have fresh: "map_of (messages st) (projectId, newId) = None"
    by (auto simp add: sendMessage_def require_param_if message_add_def Let_def split: if_splits)
  have run: "sendMessage repr now newId projectId reqbody st =
       (json_ok (JObj [(''id'', JStr newId), (''senderId'', JStr (trim senderId)),
                       (''content'', JStr (trim content)),
                       (''timestamp'', normalizeTimestamp_post (repr now))]),
        logged (OpGet (MessageDoc projectId newId))
          (logged (OpAdd (MessageDoc projectId newId))
             (st2\<lparr>messages := messages st @
                  [((projectId, newId),
                    [(''senderId'', JStr (trim senderId)), (''content'', JStr (trim content)),
                     (''timestamp'', repr now)])]\<rparr>)))"
    using nb s c e r m fresh
    by (simp add: sendMessage_def require_param_if message_add_def message_get_def Let_def
        map_add_def jget_def)
  from s c have "jget reqbody ''senderId'' = JStr senderId" "trim senderId \<noteq> []"
    "jget reqbody ''content'' = JStr content" "trim content \<noteq> []"
    by (simp_all add: require_field_Inr)
  with nb e r fresh run show thesis
    by (intro that) simp_all
qed

subsection \<open>Listing\<close>

lemma project_messages_mem:
  "(mid, d) \<in> set (project_messages pid st) \<longleftrightarrow> ((pid, mid), d) \<in> set (messages st)"
  by (force simp add: project_messages_def)

lemma message_view_get_id [simp]: "jprop (message_view_get e) ''id'' = JStr (fst e)"
  by (simp add: message_view_get_def jget_def Let_def)

lemma list_existing_project:
  assumes "\<not> blank_param projectId" and "map_of (projects st) projectId \<noteq> None"
  shows "fst (listMessages le projectId st) =
     json_ok (JArr (map message_view_get
        (sort_by (\<lambda>a b. le (order_key a) (order_key b))
           (filter (\<lambda>e. map_of (snd e) ''timestamp'' \<noteq> None) (project_messages projectId st)))))"
  using assms
  by (auto simp add: listMessages_def require_param_if project_get_def
      messages_orderBy_timestamp_def project_messages_def Let_def split: option.splits)





lemma list_outcome:
  "fst (listMessages le projectId st) =
     (if blank_param projectId then json_error 400 ''Project ID is required''
      else if map_of (projects st) projectId = None then json_ok (JArr [])
      else json_ok (JArr (map message_view_get
        (sort_by (\<lambda>a b. le (order_key a) (order_key b))
           (filter (\<lambda>e. map_of (snd e) ''timestamp'' \<noteq> None)
              (project_messages projectId st))))))"
  by (auto simp add: listMessages_def require_param_if project_get_def
      messages_orderBy_timestamp_def project_messages_def Let_def split: option.splits)

lemma edit_success:
  assumes ok: "status (fst (editMessage repr now projectId messageId reqbody st)) = 200"
  obtains senderId content d where
    "\<not> blank_param projectId" "\<not> blank_param messageId"
    "jget reqbody ''senderId'' = JStr senderId" "trim senderId \<noteq> []"
    "jget reqbody ''content'' = JStr content" "trim content \<noteq> []"
    "map_of (messages st) (projectId, messageId) = Some d"
    "jget d ''senderId'' = JStr senderId"
proof -
  from ok have nb: "\<not> blank_param projectId" "\<not> blank_param messageId"
    by (auto simp add: editMessage_def require_param_if split: if_splits)
  from ok nb obtain senderId where s: "require_field (jget reqbody ''senderId'') ''senderId''
       ''Sender ID is required'' = Inr senderId"
    by (cases "require_field (jget reqbody ''senderId'') ''senderId'' ''Sender ID is required''")
       (auto simp add: editMessage_def require_param_if require_field_def
         split: if_splits jsval.splits)
  from ok nb s obtain content where c: "require_field (jget reqbody ''content'') ''content''
       ''Message content is required'' = Inr content"
    by (cases "require_field (jget reqbody ''content'') ''content'' ''Message content is required''")
       (auto simp add: editMessage_def require_param_if require_field_def
         split: if_splits jsval.splits)
  from s c have v: "jget reqbody ''senderId'' = JStr senderId" "trim senderId \<noteq> []"
    "jget reqbody ''content'' = JStr content" "trim content \<noteq> []"
    by (simp_all add: require_field_Inr)
  from ok obtain d where d: "map_of (messages st) (projectId, messageId) = Some d"
    "jget d ''senderId'' = JStr senderId"
    unfolding edit_outcome [OF nb v]
    by (auto split: option.splits if_splits)
  from nb v d show thesis by (rule that)
qed

subsection \<open>The roster and the send handler\<close>

lemma getParticipants_roster:
  "\<not> blank_param projectId \<Longrightarrow>
   fst (getParticipants projectId st) = json_ok (JObj [(''participants'', roster st projectId)])"
  by (simp add: getParticipants_def require_param_if project_get_def roster_def Let_def
      split: option.splits)

lemma roster_cong: "projects st' = projects st \<Longrightarrow> roster st' q = roster st q"
  by (simp add: roster_def)

lemma roster_logged [simp]: "roster (logged e st) q = roster st q"
  by (simp add: roster_def)

lemma roster_project_set:
  "roster (project_set repr p ((''participants'', JArr xs) # d) st) q
     = (if q = p then JArr xs else roster st q)"
  by (simp add: roster_def update_conv' jget_def)

lemma roster_project_update:
  "map_of (projects st) p = Some d \<Longrightarrow>
   roster (project_update repr p [(''participants'', JArr xs)] st) q
     = (if q = p then JArr xs else roster st q)"
  by (simp add: roster_def map_of_map_entry jget_assign)

lemma ensure_unfold:
  "ensureProjectForSender repr now projectId senderId st =
     (case map_of (projects st) projectId of
        None \<Rightarrow>
          (None, project_set repr projectId
                   [(''participants'', JArr [JStr senderId]), (''createdAt'', JDate now)]
                   (logged (OpGet (ProjectDoc projectId)) st))
      | Some d \<Rightarrow>
          (case roster st projectId of
             JArr xs \<Rightarrow>
               (if JStr senderId \<in> set xs then (None, logged (OpGet (ProjectDoc projectId)) st)
                else (None, project_update repr projectId
                              [(''participants'', JArr (xs @ [JStr senderId]))]
                              (logged (OpGet (ProjectDoc projectId)) st)))
           | JStr s \<Rightarrow>
               (if str_includes s senderId then (None, logged (OpGet (ProjectDoc projectId)) st)
                else (None, project_update repr projectId
                              [(''participants'', JArr (str_spread s @ [JStr senderId]))]
                              (logged (OpGet (ProjectDoc projectId)) st)))
           | _ \<Rightarrow>
               (Some (json_error 500 ''Server error: participants.includes is not a function''),
                logged (OpGet (ProjectDoc projectId)) st)))"
  by (simp add: ensureProjectForSender_def project_get_def roster_def Let_def
      split: option.splits)

lemma ensure_roster_array:
  assumes "roster st projectId = JArr xs"
  shows "fst (ensureProjectForSender repr now projectId senderId st) = None"
    and "roster (snd (ensureProjectForSender repr now projectId senderId st)) projectId
         = JArr (if JStr senderId \<in> set xs then xs else xs @ [JStr senderId])"
proof -
  show "fst (ensureProjectForSender repr now projectId senderId st) = None"
    using assms by (simp add: ensure_unfold split: option.splits)
  show "roster (snd (ensureProjectForSender repr now projectId senderId st)) projectId
         = JArr (if JStr senderId \<in> set xs then xs else xs @ [JStr senderId])"
  proof (cases "map_of (projects st) projectId")
    case None
    with assms have "xs = []" by (simp add: roster_def)
    with None show ?thesis by (simp add: ensure_unfold roster_project_set)
  next
    case (Some d)
    with assms show ?thesis
      by (simp add: ensure_unfold roster_project_update)
  qed
qed

lemma ensure_other_project:
  assumes "q \<noteq> projectId"
  shows "roster (snd (ensureProjectForSender repr now projectId senderId st)) q = roster st q"
proof -
  have "map_of (projects (snd (ensureProjectForSender repr now projectId senderId st))) q
     = map_of (projects st) q"
    using assms
    by (simp add: ensure_unfold update_conv' map_of_map_entry
        split: option.splits jsval.splits)
  then show ?thesis by (simp add: roster_def)
qed

subsection \<open>A successful edit\<close>

lemma edit_owner_run:
  assumes "status (fst (editMessage repr now projectId messageId reqbody st)) = 200"
  obtains senderId content d where
    "jget reqbody ''senderId'' = JStr senderId" "jget reqbody ''content'' = JStr content"
    "map_of (messages st) (projectId, messageId) = Some d"
    "jget d ''senderId'' = JStr senderId"
    "editMessage repr now projectId messageId reqbody st =
      (json_ok (JObj (assign (assign [(''content'', JStr (trim content)),
                                      (''editedAt'', repr now), (''edited'', JBool True)] d)
                        [(''id'', JStr messageId)])),
       logged (OpGet (MessageDoc projectId messageId))
         (message_update repr projectId messageId
            [(''content'', JStr (trim content)), (''editedAt'', JDate now), (''edited'', JBool True)]
            (logged (OpGet (MessageDoc projectId messageId)) st)))"
proof -
  from assms obtain senderId content d where h: "\<not> blank_param projectId"
    "\<not> blank_param messageId"
    "jget reqbody ''senderId'' = JStr senderId" "trim senderId \<noteq> []"
    "jget reqbody ''content'' = JStr content" "trim content \<noteq> []"
    "map_of (messages st) (projectId, messageId) = Some d"
    "jget d ''senderId'' = JStr senderId"
    by (rule edit_success)
  then have "editMessage repr now projectId messageId reqbody st =
      (json_ok (JObj (assign (assign [(''content'', JStr (trim content)),
                                      (''editedAt'', repr now), (''edited'', JBool True)] d)
                        [(''id'', JStr messageId)])),
       logged (OpGet (MessageDoc projectId messageId))
         (message_update repr projectId messageId
            [(''content'', JStr (trim content)), (''editedAt'', JDate now), (''edited'', JBool True)]
            (logged (OpGet (MessageDoc projectId messageId)) st)))"
    by (simp add: edit_outcome Let_def map_of_map_entry)
  with h show thesis by (intro that) simp_all
qed

lemma edit_timestamp_when_canonical:
  assumes "status (fst (editMessage repr now projectId messageId reqbody st)) = 200"
    and "map_of (messages st) (projectId, messageId) = Some d"
    and "distinct (map fst d)"
    and "jget d ''timestamp'' = JObj t"
    and "jget t ''_seconds'' \<noteq> JUndefined" and "jget t ''_nanoseconds'' \<noteq> JUndefined"
  shows "jprop (body (fst (editMessage repr now projectId messageId reqbody st))) ''timestamp''
         = normalizeTimestamp_get (jget d ''timestamp'')"
proof -
  from assms(1) obtain content d0 where d0: "map_of (messages st) (projectId, messageId) = Some d0"
    and run: "editMessage repr now projectId messageId reqbody st =
      (json_ok (JObj (assign (assign [(''content'', JStr (trim content)),
                                      (''editedAt'', repr now), (''edited'', JBool True)] d0)
                        [(''id'', JStr messageId)])),
       logged (OpGet (MessageDoc projectId messageId))
         (message_update repr projectId messageId
            [(''content'', JStr (trim content)), (''editedAt'', JDate now), (''edited'', JBool True)]
            (logged (OpGet (MessageDoc projectId messageId)) st)))"
    by (rule edit_owner_run)
  from d0 assms(2) have [simp]: "d0 = d" by simp
  let ?d' = "assign [(''content'', JStr (trim content)), (''editedAt'', repr now),
                     (''edited'', JBool True)] d"
  have "distinct (map fst ?d')" using assms(3) by (rule distinct_assign)
  then have "jget (assign ?d' [(''id'', JStr messageId)]) ''timestamp'' = jget ?d' ''timestamp''"
    by (simp add: jget_spread_id)
  also have "\<dots> = jget d ''timestamp''" by (simp add: jget_assign)
  finally show ?thesis
    unfolding run using assms(4-6) by (simp add: normalizeTimestamp_get_def)
qed

subsection \<open>The roster along a sequence of requests\<close>

lemma first_occurrences_snoc:
  "first_occurrences (xs @ [x])
     = (if x \<in> set xs then first_occurrences xs else first_occurrences xs @ [x])"
  by (simp add: first_occurrences_def)

lemma set_first_occurrences [simp]: "set (first_occurrences xs) = set xs"
  by (simp add: first_occurrences_def)

lemma distinct_first_occurrences [simp]: "distinct (first_occurrences xs)"
  by (simp add: first_occurrences_def)

lemma roster_of_history_send:
  "roster_of_history (b, ss @ [s])
     = (if s \<in> set (roster_of_history (b, ss)) then roster_of_history (b, ss)
        else roster_of_history (b, ss) @ [s])"
  by (auto simp add: roster_of_history_def first_occurrences_snoc)

lemma roster_of_history_init [simp]: "roster_of_history (b, []) = b"
  by (simp add: roster_of_history_def first_occurrences_def)

lemma distinct_roster_of_history:
  "distinct (fst h) \<Longrightarrow> distinct (roster_of_history h)"
  by (auto simp add: roster_of_history_def)

lemma projects_listMessages [simp]: "projects (snd (listMessages le p st)) = projects st"
  by (simp add: listMessages_def require_param_if project_get_def
      messages_orderBy_timestamp_def Let_def split: option.splits)

lemma projects_getParticipants [simp]: "projects (snd (getParticipants p st)) = projects st"
  by (simp add: getParticipants_def require_param_if project_get_def Let_def
      split: option.splits)

lemma projects_editMessage [simp]:
  "projects (snd (editMessage repr now p m b st)) = projects st"
  by (simp add: editMessage_def message_get_def Let_def split: sum.splits option.splits)

lemma projects_deleteMessage [simp]: "projects (snd (deleteMessage p m q st)) = projects st"
  by (simp add: deleteMessage_def message_get_def Let_def split: sum.splits option.splits)

lemma initProject_plain:
  assumes "\<not> blank_param p" and "array_or_absent (jget reqbody ''participants'')"
  shows "initProject conv repr now p reqbody st =
     (json_ok (JObj [(''message'', JStr ''Project initialized successfully''),
                     (''projectId'', JStr p),
                     (''participants'', JArr (init_roster (jget reqbody ''participants'')))]),
      project_set repr p
        [(''participants'', JArr (init_roster (jget reqbody ''participants''))),
         (''createdAt'', JDate now),
         (''description'', JStr ''Test project created via API'')] st)"
proof (cases "jget reqbody ''participants''")
  case JUndefined
  with assms(1) show ?thesis
    by (simp add: initProject_def require_param_if init_roster_def Let_def)
next
  case (JArr xs)
  with assms(1) show ?thesis
    by (cases xs) (simp_all add: initProject_def require_param_if init_roster_def Let_def)
qed (use assms(2) in simp_all)

lemma roster_initProject:
  assumes "status (fst (initProject conv repr now p reqbody st)) = 200"
    and "array_or_absent (jget reqbody ''participants'')"
  shows "roster (snd (initProject conv repr now p reqbody st)) p
         = JArr (init_roster (jget reqbody ''participants''))"
proof -
  from assms(1) have nb: "\<not> blank_param p"
    by (auto simp add: initProject_def require_param_if Let_def)
  show ?thesis
    unfolding initProject_plain [OF nb assms(2)] by (simp add: roster_project_set)
qed

lemma roster_initProject_other:
  assumes "q \<noteq> p"
  shows "roster (snd (initProject conv repr now p reqbody st)) q = roster st q"
proof -
  have "map_of (projects (snd (initProject conv repr now p reqbody st))) q
          = map_of (projects st) q"
    using assms
    by (simp add: initProject_def Let_def update_conv' split: sum.splits option.splits)
  then show ?thesis by (simp add: roster_def)
qed

lemma roster_sendMessage:
  assumes ok: "status (fst (sendMessage repr now newId p reqbody st)) = 200"
  shows "\<exists>s. jget reqbody ''senderId'' = JStr s
    \<and> (\<forall>q. q \<noteq> p \<longrightarrow> roster (snd (sendMessage repr now newId p reqbody st)) q = roster st q)
    \<and> (\<forall>xs. roster st p = JArr xs \<longrightarrow>
        roster (snd (sendMessage repr now newId p reqbody st)) p
          = JArr (if JStr s \<in> set xs then xs else xs @ [JStr s]))"
proof -
  from ok obtain s content st2 where
    s: "jget reqbody ''senderId'' = JStr s"
    and e: "ensureProjectForSender repr now p s st = (None, st2)"
    and run: "sendMessage repr now newId p reqbody st =
       (json_ok (JObj [(''id'', JStr newId), (''senderId'', JStr (trim s)),
                       (''content'', JStr (trim content)),
                       (''timestamp'', normalizeTimestamp_post (repr now))]),
        logged (OpGet (MessageDoc p newId))
          (logged (OpAdd (MessageDoc p newId))
             (st2\<lparr>messages := messages st @
                  [((p, newId),
                    [(''senderId'', JStr (trim s)), (''content'', JStr (trim content)),
                     (''timestamp'', repr now)])]\<rparr>)))"
    by (rule send_success)
  have st2: "st2 = snd (ensureProjectForSender repr now p s st)"
    using e by simp
  have r: "\<And>q. roster (snd (sendMessage repr now newId p reqbody st)) q = roster st2 q"
    unfolding run by (simp add: roster_def)
  have other: "\<forall>q. q \<noteq> p \<longrightarrow>
      roster (snd (sendMessage repr now newId p reqbody st)) q = roster st q"
    unfolding r st2 by (simp add: ensure_other_project)
  have same: "\<forall>xs. roster st p = JArr xs \<longrightarrow>
        roster (snd (sendMessage repr now newId p reqbody st)) p
          = JArr (if JStr s \<in> set xs then xs else xs @ [JStr s])"
    unfolding r st2 by (simp add: ensure_roster_array(2))
  from s other same show ?thesis by blast
qed

lemma handle_roster_step:
  assumes ok: "status (fst (handle conv repr le c st)) = 200"
    and r: "roster st pid = JArr (roster_of_history h)"
    and pl: "plain_call pid c"
  shows "roster (snd (handle conv repr le c st)) pid
         = JArr (roster_of_history (roster_history pid h [c]))"
proof -
  obtain now newId req where c: "c = (now, newId, req)" by (cases c)
  obtain b ss where h: "h = (b, ss)" by (cases h)
  show ?thesis
  proof (cases req)
    case (GetMessages p)
    with r show ?thesis by (simp add: c h roster_def)
  next
    case (GetParticipants p)
    with r show ?thesis by (simp add: c h roster_def)
  next
    case (PutMessage p m bd)
    with r show ?thesis by (simp add: c h roster_def)
  next
    case (DeleteMessage p m q)
    with r show ?thesis by (simp add: c h roster_def)
  next
    case (PostInit p reqbody)
    with ok have ok': "status (fst (initProject conv repr now p reqbody st)) = 200"
      by (simp add: c)
    show ?thesis
    proof (cases "p = pid")
      case True
      with pl have "array_or_absent (jget reqbody ''participants'')"
        by (simp add: c PostInit)
      from roster_initProject [OF ok' this] True show ?thesis
        by (simp add: c h PostInit)
    next
      case False
      then have "roster (snd (initProject conv repr now p reqbody st)) pid = roster st pid"
        by (intro roster_initProject_other) simp
      with False r show ?thesis
        by (simp add: c h PostInit)
    qed
  next
    case (PostMessage p reqbody)
    with ok have ok': "status (fst (sendMessage repr now newId p reqbody st)) = 200"
      by (simp add: c)
    then obtain s where s: "jget reqbody ''senderId'' = JStr s"
      and other: "\<And>q. q \<noteq> p \<Longrightarrow> roster (snd (sendMessage repr now newId p reqbody st)) q = roster st q"
      and same: "\<And>xs. roster st p = JArr xs \<Longrightarrow>
        roster (snd (sendMessage repr now newId p reqbody st)) p
          = JArr (if JStr s \<in> set xs then xs else xs @ [JStr s])"
      using roster_sendMessage [OF ok'] by blast
    show ?thesis
    proof (cases "p = pid")
      case True
      with same [of "roster_of_history (b, ss)"] r s show ?thesis
        by (simp add: c h PostMessage roster_of_history_send)
    next
      case False
      with other [of pid] r show ?thesis
        by (simp add: c h PostMessage)
    qed
  qed
qed

lemma roster_history_Cons:
  "roster_history pid h (c # cs) = roster_history pid (roster_history pid h [c]) cs"
proof -
  obtain now newId req where c: "c = (now, newId, req)" by (cases c)
  obtain b ss where h: "h = (b, ss)" by (cases h)
  show ?thesis by (cases req) (simp_all add: c h)
qed

lemma run_roster:
  assumes "run conv repr le cs st = (rs, st')" and "\<forall>r \<in> set rs. status r = 200"
    and "roster st pid = JArr (roster_of_history h)"
    and "list_all (plain_call pid) cs"
  shows "roster st' pid = JArr (roster_of_history (roster_history pid h cs))"
  using assms
proof (induction cs arbitrary: st rs h st')
  case Nil
  obtain b ss where "h = (b, ss)" by (cases h)
  with Nil show ?case by simp
next
  case (Cons c cs)
  obtain r1 st1 where h1: "handle conv repr le c st = (r1, st1)" by (cases "handle conv repr le c st")
  obtain rs1 st2 where r1: "run conv repr le cs st1 = (rs1, st2)" by (cases "run conv repr le cs st1")
  from Cons.prems(1) h1 r1 have eq: "rs = r1 # rs1" "st' = st2" by simp_all
  with Cons.prems(2) have ok1: "status r1 = 200" and oks: "\<forall>r \<in> set rs1. status r = 200"
    by simp_all
  from ok1 h1 have okc: "status (fst (handle conv repr le c st)) = 200" by simp
  from Cons.prems(4) have pl: "plain_call pid c" and pls: "list_all (plain_call pid) cs"
    by simp_all
  from handle_roster_step [OF okc Cons.prems(3) pl] h1
  have "roster st1 pid = JArr (roster_of_history (roster_history pid h [c]))" by simp
  from Cons.IH [OF r1 oks this pls] show ?case
    by (simp add: eq roster_history_Cons [of pid h c cs])
qed

lemma index_sendMessage_same_store:
  "status (fst (index_sendMessage repr now newId p reqbody st))
     = status (fst (sendMessage repr now newId p reqbody st))
   \<and> projects (snd (index_sendMessage repr now newId p reqbody st))
     = projects (snd (sendMessage repr now newId p reqbody st))
   \<and> messages (snd (index_sendMessage repr now newId p reqbody st))
     = messages (snd (sendMessage repr now newId p reqbody st))"
  by (simp add: index_sendMessage_def sendMessage_def message_add_def message_get_def Let_def
      split: sum.splits prod.splits option.splits)

subsection \<open>The sample requests, evaluated\<close>

lemma run_overwriting_calls:
  "map status (fst (run sample_gt_zero JDate insertion_order overwriting_calls empty_store)) = [200, 200]"
  "roster (snd (run sample_gt_zero JDate insertion_order overwriting_calls empty_store)) ''p1''
     = JArr [JStr ''bob'']"
  by (simp_all add: overwriting_calls_def empty_store_def sendMessage_def initProject_def
      require_param_if require_field_def jget_def ensure_unfold roster_def
      message_add_def message_get_def project_set_def logged_def Let_def)

lemma run_sample_calls:
  "map status (fst (run sample_gt_zero JDate insertion_order sample_calls empty_store))
     = [200, 200, 200, 200, 200]"
  by (simp add: sample_calls_def empty_store_def sendMessage_def getParticipants_def
      initProject_def require_param_if require_field_def jget_def ensure_unfold roster_def
      message_add_def message_get_def project_set_def project_update_def project_get_def
      logged_def Let_def assign_def)

lemma send_untrimmed_sample:
  "sendMessage JDate 9 ''m2'' ''p1''
     [(''senderId'', JStr '' alice''), (''content'', JStr ''hi'')] sample_store
   = (json_ok (JObj [(''id'', JStr ''m2''), (''senderId'', JStr ''alice''),
                     (''content'', JStr ''hi''),
                     (''timestamp'', JObj [(''_seconds'', JNum 0),
                                           (''_nanoseconds'', JNum 9000000)])]),
      \<lparr>projects = [(''p1'', [(''participants'', JArr [JStr ''alice'', JStr '' alice'']),
                              (''createdAt'', JObj [(''_seconds'', JNum 1),
                                                    (''_nanoseconds'', JNum 0)])])],
       messages = [((''p1'', ''m1''),
                    [(''senderId'', JStr ''alice''), (''content'', JStr ''hi''),
                     (''timestamp'', JObj [(''seconds'', JNum 5), (''nanoseconds'', JNum 7)])]),
                   ((''p1'', ''m2''),
                    [(''senderId'', JStr ''alice''), (''content'', JStr ''hi''),
                     (''timestamp'', JDate 9)])],
       io_log = [OpGet (ProjectDoc ''p1''), OpUpdate (ProjectDoc ''p1''),
                 OpAdd (MessageDoc ''p1'' ''m2''), OpGet (MessageDoc ''p1'' ''m2'')]\<rparr>)"
  by (simp add: sendMessage_def require_param_if require_field_def jget_def
      ensureProjectForSender_def project_get_def sample_store_def Let_def message_add_def
      message_get_def logged_def project_update_def assign_def normalizeTimestamp_post_def
      js_rem_def json_ok_def)

subsection \<open>What is sent of a listed record\<close>

lemma to_wire_undefined_iff [simp]: "to_wire fmt v = JUndefined \<longleftrightarrow> v = JUndefined"
  by (cases v) simp_all

lemma normalizeTimestamp_get_defined [simp]: "normalizeTimestamp_get v \<noteq> JUndefined"
  by (cases v) (auto simp add: normalizeTimestamp_get_def)




lemma length_insert_by [simp]: "length (insert_by le x xs) = Suc (length xs)"
  by (induction xs) simp_all

lemma length_sort_by [simp]: "length (sort_by le xs) = length xs"
  by (induction xs) (simp_all add: sort_by_def)

subsection \<open>Further samples\<close>


lemma init_string_roster_sample:
  "status (fst (initProject sample_gt_zero JDate 1 ''p1'' [(''participants'', JStr ''alice'')]
                  empty_store)) = 200"
  "roster (snd (initProject sample_gt_zero JDate 1 ''p1'' [(''participants'', JStr ''alice'')]
                  empty_store)) ''p1'' = JStr ''alice''"
  "status (fst (initProject sample_gt_zero JDate 1 ''p1'' [(''participants'', JNull)]
                  empty_store)) = 500"
  "roster (snd (sendMessage JDate 2 ''m1'' ''p1''
                  [(''senderId'', JStr ''bob''), (''content'', JStr ''hi'')]
                  (snd (initProject sample_gt_zero JDate 1 ''p1''
                          [(''participants'', JStr ''alice'')] empty_store)))) ''p1''
     = JArr [JStr ''a'', JStr ''l'', JStr ''i'', JStr ''c'', JStr ''e'', JStr ''bob'']"
  by (simp_all add: initProject_def require_param_if jget_def empty_store_def roster_def
      project_set_def logged_def Let_def sendMessage_def require_field_def
      ensureProjectForSender_def project_get_def project_update_def message_add_def
      message_get_def assign_def str_spread_def)

section \<open>The claims\<close>

subsection \<open>Claim C1: the roster after a sequence of requests\<close>

text \<open>
  The roster as claim C1 states it, all senders so far together with the roster supplied at
  the most recent init, is not what the code keeps: after a send by \<open>alice\<close> and an init
  with the roster \<open>["bob"]\<close>, both successful, the roster is \<open>["bob"]\<close>.
\<close>

theorem roster_forgets_senders_before_init:
  "map status (fst (run sample_gt_zero JDate insertion_order overwriting_calls empty_store)) = [200, 200]
   \<and> senders_of ''p1'' overwriting_calls = [JStr ''alice'']
   \<and> roster (snd (run sample_gt_zero JDate insertion_order overwriting_calls empty_store)) ''p1''
       = JArr [JStr ''bob'']
   \<and> \<not> roster_as_claimed ''p1'' overwriting_calls
         (snd (run sample_gt_zero JDate insertion_order overwriting_calls empty_store))"
proof -
  have s: "senders_of ''p1'' overwriting_calls = [JStr ''alice'']"
    by (simp add: overwriting_calls_def jget_def)
  have "\<not> roster_as_claimed ''p1'' overwriting_calls
         (snd (run sample_gt_zero JDate insertion_order overwriting_calls empty_store))"
    unfolding roster_as_claimed_def run_overwriting_calls(2) s by auto
  with s run_overwriting_calls show ?thesis by simp
qed

text \<open>
  Claim C1, as amended. Take any sequence of requests that all succeed, in which every init of
  the project supplies an array or nothing and every sender id sent into the project has no
  white space at its ends, started on a store in which the roster of the project is an array
  \<open>r0\<close> (the empty one when the project does not exist). After it the roster of the project
  is: the roster written by the most recent init of the project (the supplied array, or the
  three default names when none or an empty one was supplied; \<open>r0\<close> when there was no
  init), followed by the sender ids of the sends into the project since then that are not in
  it, each once, in the order of their first send. It has no duplicates when the roster written
  by that init has none. For one such send: into a project that does not exist the roster
  becomes the one-element list of the sender; a sender not in the roster is appended once; a
  sender in the roster leaves it as it is. The send handler of \<open>index.js\<close> leaves the same
  projects behind. What an init with a \<open>participants\<close> that is not an array leaves behind,
  and which form of a sender id with white space around it enters the roster, is not part of
  this statement.
\<close>

theorem roster_after_successful_sequence:
  assumes "run conv repr le cs st = (rs, st')" and "\<forall>r \<in> set rs. status r = 200"
    and "roster st pid = JArr r0"
    and "list_all (plain_call pid) cs"
  shows "roster st' pid = JArr (expected_roster pid r0 cs)
     \<and> (distinct (fst (roster_history pid (r0, []) cs)) \<longrightarrow> distinct (expected_roster pid r0 cs))
     \<and> (status (fst (sendMessage repr now newId pid reqbody st)) = 200
          \<and> jget reqbody ''senderId'' = JStr s \<and> trim s = s \<longrightarrow>
            (map_of (projects st) pid = None \<longrightarrow>
               roster (snd (sendMessage repr now newId pid reqbody st)) pid = JArr [JStr s])
          \<and> (JStr s \<notin> set r0 \<longrightarrow>
               roster (snd (sendMessage repr now newId pid reqbody st)) pid = JArr (r0 @ [JStr s]))
          \<and> (JStr s \<in> set r0 \<longrightarrow>
               roster (snd (sendMessage repr now newId pid reqbody st)) pid = JArr r0)
          \<and> projects (snd (index_sendMessage repr now newId pid reqbody st))
               = projects (snd (sendMessage repr now newId pid reqbody st)))"
proof (intro conjI impI)
  have "roster st pid = JArr (roster_of_history (r0, []))"
    using assms(3) by simp
  from run_roster [OF assms(1,2) this assms(4)]
  show "roster st' pid = JArr (expected_roster pid r0 cs)"
    by (simp add: expected_roster_def)
next
  assume "distinct (fst (roster_history pid (r0, []) cs))"
  then show "distinct (expected_roster pid r0 cs)"
    unfolding expected_roster_def by (rule distinct_roster_of_history)
next
  assume a: "status (fst (sendMessage repr now newId pid reqbody st)) = 200
          \<and> jget reqbody ''senderId'' = JStr s \<and> trim s = s"
  then have r: "roster (snd (sendMessage repr now newId pid reqbody st)) pid
          = JArr (if JStr s \<in> set r0 then r0 else r0 @ [JStr s])"
    using roster_sendMessage [of repr now newId pid reqbody st] assms(3) by auto
  { assume "map_of (projects st) pid = None"
    with assms(3) have "r0 = []" by (simp add: roster_def)
    with r show "roster (snd (sendMessage repr now newId pid reqbody st)) pid = JArr [JStr s]"
      by simp }
  { assume "JStr s \<notin> set r0"
    with r show "roster (snd (sendMessage repr now newId pid reqbody st)) pid
                  = JArr (r0 @ [JStr s])" by simp }
  { assume "JStr s \<in> set r0"
    with r show "roster (snd (sendMessage repr now newId pid reqbody st)) pid = JArr r0"
      by simp }
  show "projects (snd (index_sendMessage repr now newId pid reqbody st))
               = projects (snd (sendMessage repr now newId pid reqbody st))"
    by (simp add: index_sendMessage_same_store)
qed

theorem roster_after_successful_sequence_witness:
  "roster (snd (run sample_gt_zero JDate insertion_order sample_calls empty_store)) ''p1''
     = JArr [JStr ''carol'', JStr ''bob'']"
proof -
  have r: "run sample_gt_zero JDate insertion_order sample_calls empty_store
      = (fst (run sample_gt_zero JDate insertion_order sample_calls empty_store),
         snd (run sample_gt_zero JDate insertion_order sample_calls empty_store))"
    by simp
  have "set (map status (fst (run sample_gt_zero JDate insertion_order sample_calls empty_store)))
          = {200}"
    unfolding run_sample_calls by simp
  then have ok: "\<forall>r \<in> set (fst (run sample_gt_zero JDate insertion_order sample_calls
                                      empty_store)). status r = 200"
    by auto
  have r0: "roster empty_store ''p1'' = JArr []"
    by (simp add: roster_def empty_store_def)
  have pl: "list_all (plain_call ''p1'') sample_calls"
    by (simp add: sample_calls_def jget_def)
  have e: "expected_roster ''p1'' [] sample_calls = [JStr ''carol'', JStr ''bob'']"
    by (simp add: expected_roster_def sample_calls_def roster_of_history_def
        first_occurrences_def jget_def init_roster_def)
  from roster_after_successful_sequence [OF r ok r0 pl] e show ?thesis by simp
qed

subsection \<open>Claim C2: the timestamp in the response of an edit\<close>

text \<open>
  Claim C2. The edit handler sends the record as the store gives it back, without the
  normalization the listing and the send apply. On a record whose timestamp has the second
  accepted shape (plain \<open>seconds\<close> and \<open>nanoseconds\<close>), the response of the owner's edit
  carries the timestamp in that shape, and the listing of the same record right after
  carries the canonical one. When the stored timestamp already has both canonical fields the
  two agree (\<open>edit_timestamp_when_canonical\<close>).
\<close>

theorem edit_response_not_normalized:
  "jprop (body (fst (editMessage JDate 9 ''p1'' ''m1''
                       [(''senderId'', JStr ''alice''), (''content'', JStr ''hi'')] sample_store)))
         ''timestamp''
     = JObj [(''seconds'', JNum 5), (''nanoseconds'', JNum 7)]
   \<and> fst (listMessages insertion_order ''p1''
            (snd (editMessage JDate 9 ''p1'' ''m1''
                    [(''senderId'', JStr ''alice''), (''content'', JStr ''hi'')] sample_store)))
     = json_ok (JArr [JObj [(''id'', JStr ''m1''), (''senderId'', JStr ''alice''),
                            (''content'', JStr ''hi''),
                            (''timestamp'', JObj [(''_seconds'', JNum 5),
                                                  (''_nanoseconds'', JNum 7)])]])"
proof -
  have h: "\<not> blank_param ''p1''" "\<not> blank_param ''m1''"
    "jget [(''senderId'', JStr ''alice''), (''content'', JStr ''hi'')] ''senderId'' = JStr ''alice''"
    "trim ''alice'' \<noteq> []"
    "jget [(''senderId'', JStr ''alice''), (''content'', JStr ''hi'')] ''content'' = JStr ''hi''"
    "trim ''hi'' \<noteq> []"
    by (simp_all add: jget_def)
  have run: "editMessage JDate 9 ''p1'' ''m1''
               [(''senderId'', JStr ''alice''), (''content'', JStr ''hi'')] sample_store
     = (json_ok (JObj [(''id'', JStr ''m1''), (''senderId'', JStr ''alice''),
                       (''content'', JStr ''hi''),
                       (''timestamp'', JObj [(''seconds'', JNum 5), (''nanoseconds'', JNum 7)]),
                       (''editedAt'', JDate 9), (''edited'', JBool True)]),
        \<lparr>projects = projects sample_store,
         messages = [((''p1'', ''m1''),
                      [(''senderId'', JStr ''alice''), (''content'', JStr ''hi''),
                       (''timestamp'', JObj [(''seconds'', JNum 5), (''nanoseconds'', JNum 7)]),
                       (''editedAt'', JDate 9), (''edited'', JBool True)])],
         io_log = [OpGet (MessageDoc ''p1'' ''m1''), OpUpdate (MessageDoc ''p1'' ''m1''),
                   OpGet (MessageDoc ''p1'' ''m1'')]\<rparr>)"
    unfolding edit_outcome [OF h]
    by (simp add: sample_store_def jget_def Let_def assign_def logged_def message_update_def)
  show ?thesis
    unfolding run
    by (simp add: jget_def list_outcome sample_store_def project_messages_def sort_by_def
        message_view_get_def normalizeTimestamp_get_def Let_def)
qed

subsection \<open>Claim C3: the normalization on the accepted shapes\<close>

text \<open>
  Claim C3. Both copies of the normalization, on the native date one millisecond before the
  epoch: the seconds are \<open>floor(t / 1000) = -1\<close>, but the nanoseconds are \<open>-1000000\<close>, where
  \<open>(t mod 1000) * 1000000\<close> is \<open>999000000\<close>. For \<open>t\<close> from the epoch on the two agree
  (\<open>normalizeTimestamp_shapes\<close>).
\<close>

theorem normalizeTimestamp_date_before_epoch:
  "normalizeTimestamp_get (JDate (- 1))
     = JObj [(''_seconds'', JNum (- 1)), (''_nanoseconds'', JNum (- 1000000))]
   \<and> normalizeTimestamp_post (JDate (- 1))
     = JObj [(''_seconds'', JNum (- 1)), (''_nanoseconds'', JNum (- 1000000))]
   \<and> (- 1 :: int) div 1000 = - 1
   \<and> ((- 1 :: int) mod 1000) * 1000000 = 999000000"
  by (simp add: normalizeTimestamp_get_def normalizeTimestamp_post_def js_rem_def)

subsection \<open>Claim C4: existence and ownership checks of edit and delete\<close>

text \<open>
  Claim C4. For an edit or a delete request whose fields are all present and not blank, the
  response is 404 exactly when the addressed message does not exist and 403 exactly when it
  exists and its stored \<open>senderId\<close> differs from the caller's; in both cases the projects and
  the messages of the store are as before. A delete that is neither answers with the
  acknowledgement carrying the message id, the record is gone, and deleting the same id again
  gives 404.
\<close>

theorem edit_delete_ownership:
  assumes "\<not> blank_param projectId" and "\<not> blank_param messageId"
    and "jget reqbody ''senderId'' = JStr senderId"
    and "jget query ''senderId'' = JStr senderId"
    and "trim senderId \<noteq> []"
    and "jget reqbody ''content'' = JStr content" and "trim content \<noteq> []"
  shows
    "(let stored = map_of (messages st) (projectId, messageId);
          (re, ste) = editMessage repr now projectId messageId reqbody st;
          (rd, std) = deleteMessage projectId messageId query st
      in (status re = 404 \<longleftrightarrow> stored = None)
       \<and> (status re = 403 \<longleftrightarrow> (\<exists>d. stored = Some d \<and> jget d ''senderId'' \<noteq> JStr senderId))
       \<and> (status re = 404 \<or> status re = 403
            \<longrightarrow> projects ste = projects st \<and> messages ste = messages st)
       \<and> (status rd = 404 \<longleftrightarrow> stored = None)
       \<and> (status rd = 403 \<longleftrightarrow> (\<exists>d. stored = Some d \<and> jget d ''senderId'' \<noteq> JStr senderId))
       \<and> (status rd = 404 \<or> status rd = 403
            \<longrightarrow> projects std = projects st \<and> messages std = messages st)
       \<and> (status rd \<noteq> 404 \<and> status rd \<noteq> 403
            \<longrightarrow> rd = json_ok (JObj [(''message'', JStr ''Message deleted successfully''),
                                    (''messageId'', JStr messageId)])
              \<and> map_of (messages std) (projectId, messageId) = None
              \<and> projects std = projects st
              \<and> status (fst (deleteMessage projectId messageId query std)) = 404))"
  using assms
  by (auto simp add: edit_outcome delete_outcome Let_def split: option.splits)

theorem edit_delete_ownership_witness:
  "status (fst (editMessage JDate 9 ''p1'' ''m9''
                  [(''senderId'', JStr ''alice''), (''content'', JStr ''hi'')] sample_store)) = 404
   \<and> status (fst (editMessage JDate 9 ''p1'' ''m1''
                  [(''senderId'', JStr ''bob''), (''content'', JStr ''hi'')] sample_store)) = 403
   \<and> status (fst (deleteMessage ''p1'' ''m1'' [(''senderId'', JStr ''bob'')] sample_store)) = 403
   \<and> fst (deleteMessage ''p1'' ''m1'' [(''senderId'', JStr ''alice'')] sample_store)
       = json_ok (JObj [(''message'', JStr ''Message deleted successfully''),
                        (''messageId'', JStr ''m1'')])"
proof -
  have a: "jget [(''senderId'', JStr ''alice''), (''content'', JStr ''hi'')] ''senderId'' = JStr ''alice''"
    and b: "jget [(''senderId'', JStr ''bob''), (''content'', JStr ''hi'')] ''senderId'' = JStr ''bob''"
    and c: "jget [(''senderId'', JStr ''alice''), (''content'', JStr ''hi'')] ''content'' = JStr ''hi''"
    and d: "jget [(''senderId'', JStr ''bob''), (''content'', JStr ''hi'')] ''content'' = JStr ''hi''"
    and e: "jget [(''senderId'', JStr ''alice'')] ''senderId'' = JStr ''alice''"
    and f: "jget [(''senderId'', JStr ''bob'')] ''senderId'' = JStr ''bob''"
    by (simp_all add: jget_def)
  have nb: "\<not> blank_param ''p1''" "\<not> blank_param ''m1''" "\<not> blank_param ''m9''"
    and t: "trim ''alice'' \<noteq> []" "trim ''bob'' \<noteq> []" "trim ''hi'' \<noteq> []"
    by simp_all
  note missing = edit_delete_ownership [OF nb(1) nb(3) a e t(1) c t(3), of sample_store JDate 9]
  note other = edit_delete_ownership [OF nb(1) nb(2) b f t(2) d t(3), of sample_store JDate 9]
  note owner = edit_delete_ownership [OF nb(1) nb(2) a e t(1) c t(3), of sample_store JDate 9]
  have m9: "map_of (messages sample_store) (''p1'', ''m9'') = None"
    and m1: "map_of (messages sample_store) (''p1'', ''m1'')
       = Some [(''senderId'', JStr ''alice''), (''content'', JStr ''hi''),
               (''timestamp'', JObj [(''seconds'', JNum 5), (''nanoseconds'', JNum 7)])]"
    by (simp_all add: sample_store_def)
  have s: "jget [(''senderId'', JStr ''alice''), (''content'', JStr ''hi''),
               (''timestamp'', JObj [(''seconds'', JNum 5), (''nanoseconds'', JNum 7)])] ''senderId''
            = JStr ''alice''"
    by (simp add: jget_def)
  from missing m9 have 1: "status (fst (editMessage JDate 9 ''p1'' ''m9''
                  [(''senderId'', JStr ''alice''), (''content'', JStr ''hi'')] sample_store)) = 404"
    by (simp add: Let_def split_def)
  from other m1 s have 2: "status (fst (editMessage JDate 9 ''p1'' ''m1''
                  [(''senderId'', JStr ''bob''), (''content'', JStr ''hi'')] sample_store)) = 403"
    and 3: "status (fst (deleteMessage ''p1'' ''m1'' [(''senderId'', JStr ''bob'')] sample_store)) = 403"
    by (simp_all add: Let_def split_def)
  from owner m1 s have 4: "fst (deleteMessage ''p1'' ''m1'' [(''senderId'', JStr ''alice'')] sample_store)
       = json_ok (JObj [(''message'', JStr ''Message deleted successfully''),
                        (''messageId'', JStr ''m1'')])"
    by (simp add: Let_def split_def)
  from 1 2 3 4 show ?thesis by simp
qed

subsection \<open>Claim C5: what an edit changes\<close>

text \<open>
  Claim C5. A successful edit by the owner stores the trimmed content, sets \<open>edited\<close> to true
  and \<open>editedAt\<close> to the current time (as the store represents it), leaves every other field
  of the message as it was, in particular \<open>senderId\<close> and \<open>timestamp\<close>, leaves every other
  message and every project as they were, and answers with the whole updated record.
\<close>

theorem edit_by_owner_frame:
  assumes "\<not> blank_param projectId" and "\<not> blank_param messageId"
    and "jget reqbody ''senderId'' = JStr senderId" and "trim senderId \<noteq> []"
    and "jget reqbody ''content'' = JStr content" and "trim content \<noteq> []"
    and "map_of (messages st) (projectId, messageId) = Some d"
    and "jget d ''senderId'' = JStr senderId"
    and "distinct (map fst d)"
  shows
    "(let (r, st') = editMessage repr now projectId messageId reqbody st
      in \<exists>d'. map_of (messages st') (projectId, messageId) = Some d'
           \<and> jget d' ''content'' = JStr (trim content)
           \<and> jget d' ''edited'' = JBool True
           \<and> jget d' ''editedAt'' = repr now
           \<and> (\<forall>k. k \<notin> {''content'', ''edited'', ''editedAt''} \<longrightarrow> map_of d' k = map_of d k)
           \<and> jget d' ''senderId'' = jget d ''senderId''
           \<and> jget d' ''timestamp'' = jget d ''timestamp''
           \<and> (\<forall>key. key \<noteq> (projectId, messageId)
                  \<longrightarrow> map_of (messages st') key = map_of (messages st) key)
           \<and> projects st' = projects st
           \<and> r = json_ok (JObj (assign d' [(''id'', JStr messageId)]))
           \<and> (\<forall>k. k \<noteq> ''id'' \<longrightarrow> jget (assign d' [(''id'', JStr messageId)]) k = jget d' k))"
  using assms
proof -
  let ?fs = "[(''content'', JStr (trim content)), (''editedAt'', repr now),
              (''edited'', JBool True)]"
  let ?d' = "assign ?fs d"
  have dist: "distinct (map fst ?d')"
    using assms(9) by (rule distinct_assign)
  have spread: "\<forall>k. k \<noteq> ''id'' \<longrightarrow> jget (assign ?d' [(''id'', JStr messageId)]) k = jget ?d' k"
    using dist by (simp add: jget_spread_id)
  have fields: "jget ?d' ''content'' = JStr (trim content)" "jget ?d' ''edited'' = JBool True"
    "jget ?d' ''editedAt'' = repr now" "jget ?d' ''senderId'' = jget d ''senderId''"
    "jget ?d' ''timestamp'' = jget d ''timestamp''"
    by (simp_all add: jget_assign)
  have others: "\<forall>k. k \<notin> {''content'', ''edited'', ''editedAt''} \<longrightarrow> map_of ?d' k = map_of d k"
    by (simp add: map_of_assign map_add_def)
  have run: "editMessage repr now projectId messageId reqbody st =
      (json_ok (JObj (assign ?d' [(''id'', JStr messageId)])),
       logged (OpGet (MessageDoc projectId messageId))
         (message_update repr projectId messageId
            [(''content'', JStr (trim content)), (''editedAt'', JDate now), (''edited'', JBool True)]
            (logged (OpGet (MessageDoc projectId messageId)) st)))"
    using assms(1-8)
    by (simp add: edit_outcome Let_def map_of_map_entry store_fields_def store_value_def)
  show ?thesis
    unfolding run using fields others spread assms(7)
    by (simp add: map_of_map_entry store_fields_def store_value_def)
qed

theorem edit_by_owner_frame_witness:
  "editMessage JDate 9 ''p1'' ''m1''
     [(''senderId'', JStr ''alice''), (''content'', JStr '' bye '')] sample_store
   = (json_ok (JObj [(''id'', JStr ''m1''), (''senderId'', JStr ''alice''),
                     (''content'', JStr ''bye''),
                     (''timestamp'', JObj [(''seconds'', JNum 5), (''nanoseconds'', JNum 7)]),
                     (''editedAt'', JDate 9), (''edited'', JBool True)]),
      \<lparr>projects = projects sample_store,
       messages = [((''p1'', ''m1''),
                    [(''senderId'', JStr ''alice''), (''content'', JStr ''bye''),
                     (''timestamp'', JObj [(''seconds'', JNum 5), (''nanoseconds'', JNum 7)]),
                     (''editedAt'', JDate 9), (''edited'', JBool True)])],
       io_log = [OpGet (MessageDoc ''p1'' ''m1''), OpUpdate (MessageDoc ''p1'' ''m1''),
                 OpGet (MessageDoc ''p1'' ''m1'')]\<rparr>)"
proof -
  let ?d = "[(''senderId'', JStr ''alice''), (''content'', JStr ''hi''),
             (''timestamp'', JObj [(''seconds'', JNum 5), (''nanoseconds'', JNum 7)])]"
  have h: "\<not> blank_param ''p1''" "\<not> blank_param ''m1''"
    "jget [(''senderId'', JStr ''alice''), (''content'', JStr '' bye '')] ''senderId'' = JStr ''alice''"
    "trim ''alice'' \<noteq> []"
    "jget [(''senderId'', JStr ''alice''), (''content'', JStr '' bye '')] ''content'' = JStr '' bye ''"
    "trim '' bye '' \<noteq> []"
    "map_of (messages sample_store) (''p1'', ''m1'') = Some ?d"
    "jget ?d ''senderId'' = JStr ''alice''"
    "distinct (map fst ?d)"
    by (simp_all add: jget_def sample_store_def)
  note fr = edit_by_owner_frame [OF h, of JDate 9]
  have run: "editMessage JDate 9 ''p1'' ''m1''
     [(''senderId'', JStr ''alice''), (''content'', JStr '' bye '')] sample_store
     = (json_ok (JObj (assign (assign [(''content'', JStr ''bye''), (''editedAt'', JDate 9),
                                      (''edited'', JBool True)] ?d) [(''id'', JStr ''m1'')])),
        logged (OpGet (MessageDoc ''p1'' ''m1''))
          (message_update JDate ''p1'' ''m1''
              [(''content'', JStr ''bye''), (''editedAt'', JDate 9), (''edited'', JBool True)]
              (logged (OpGet (MessageDoc ''p1'' ''m1'')) sample_store)))"
    using fr h
    by (simp add: edit_outcome Let_def map_of_map_entry store_fields_def store_value_def split_def)
  show ?thesis
    unfolding run
    by (simp add: assign_def logged_def message_update_def sample_store_def store_fields_def
        store_value_def json_ok_def)
qed

subsection \<open>Claim C6: reads of a project that does not exist\<close>

text \<open>
  Claim C6. On a store without the project, the two read handlers of \<open>index.js\<close> answer 404,
  where the handlers of the other source file answer 200 with an empty result (see
  \<open>unknown_project_reads_empty\<close> for every store and project id).
\<close>

theorem index_unknown_project_is_404:
  "status (fst (index_getParticipants ''ghost'' empty_store)) = 404
   \<and> status (fst (index_listMessages insertion_order ''ghost'' empty_store)) = 404
   \<and> fst (getParticipants ''ghost'' empty_store) = json_ok (JObj [(''participants'', JArr [])])
   \<and> fst (listMessages insertion_order ''ghost'' empty_store) = json_ok (JArr [])"
  by (simp add: index_getParticipants_def index_listMessages_def getParticipants_def
      listMessages_def require_param_if not_blank_ghost project_get_def empty_store_def)

subsection \<open>Claim C7: validation comes before the store\<close>




subsection \<open>Claim C8: send, then list\<close>

text \<open>
  Claim C8. A successful send ends with the creation of the message document followed by a
  read of the same document, and builds its response from what it read. A listing of the
  project on the store the send leaves behind succeeds and contains the response of the send
  as one of its entries, timestamp included; it is the only entry with the new id. The
  timestamp of the response is the normalization of what the store gives back for the date
  that was written.
\<close>

theorem send_then_list_roundtrip:
  assumes "status (fst (sendMessage repr now newId projectId reqbody st)) = 200"
  shows "(let (r, st') = sendMessage repr now newId projectId reqbody st;
              rl = fst (listMessages le projectId st')
          in (\<exists>pre. io_log st' = pre @ [OpAdd (MessageDoc projectId newId),
                                         OpGet (MessageDoc projectId newId)])
           \<and> status rl = 200
           \<and> (\<exists>ms. body rl = JArr ms \<and> body r \<in> set ms
                  \<and> (\<forall>m \<in> set ms. jprop m ''id'' = JStr newId \<longrightarrow> m = body r))
           \<and> jprop (body r) ''timestamp'' = normalizeTimestamp_get (repr now))"
proof -
  from assms obtain senderId content st2 where
    nb: "\<not> blank_param projectId"
    and e: "ensureProjectForSender repr now projectId senderId st = (None, st2)"
    and fresh: "map_of (messages st) (projectId, newId) = None"
    and run: "sendMessage repr now newId projectId reqbody st =
       (json_ok (JObj [(''id'', JStr newId), (''senderId'', JStr (trim senderId)),
                       (''content'', JStr (trim content)),
                       (''timestamp'', normalizeTimestamp_post (repr now))]),
        logged (OpGet (MessageDoc projectId newId))
          (logged (OpAdd (MessageDoc projectId newId))
             (st2\<lparr>messages := messages st @
                  [((projectId, newId),
                    [(''senderId'', JStr (trim senderId)), (''content'', JStr (trim content)),
                     (''timestamp'', repr now)])]\<rparr>)))"
    by (rule send_success)
  let ?doc = "[(''senderId'', JStr (trim senderId)), (''content'', JStr (trim content)),
               (''timestamp'', repr now)]"
  let ?r = "JObj [(''id'', JStr newId), (''senderId'', JStr (trim senderId)),
                  (''content'', JStr (trim content)),
                  (''timestamp'', normalizeTimestamp_post (repr now))]"
  let ?st' = "logged (OpGet (MessageDoc projectId newId))
          (logged (OpAdd (MessageDoc projectId newId))
             (st2\<lparr>messages := messages st @ [((projectId, newId), ?doc)]\<rparr>))"
  let ?ms = "map message_view_get
        (sort_by (\<lambda>a b. le (order_key a) (order_key b))
           (filter (\<lambda>e. map_of (snd e) ''timestamp'' \<noteq> None) (project_messages projectId ?st')))"
  have ex: "map_of (projects ?st') projectId \<noteq> None"
    using ensure_project_exists [OF e] by simp
  have list: "fst (listMessages le projectId ?st') = json_ok (JArr ?ms)"
    using nb ex by (rule list_existing_project)
  have view: "message_view_get (newId, ?doc) = ?r"
    by (simp add: message_view_get_def jget_def normalizeTimestamp_post_eq_get)
  have pm: "project_messages projectId ?st' = project_messages projectId st @ [(newId, ?doc)]"
    by (simp add: project_messages_def)
  have mem: "?r \<in> set ?ms"
    unfolding view [symmetric] pm by simp
  have uniq: "\<forall>m \<in> set ?ms. jprop m ''id'' = JStr newId \<longrightarrow> m = ?r"
  proof (intro ballI impI)
    fix m assume m: "m \<in> set ?ms" and i: "jprop m ''id'' = JStr newId"
    from m obtain x where x: "m = message_view_get x"
      and xin: "x \<in> set (project_messages projectId st) \<or> x = (newId, ?doc)"
      unfolding pm by auto
    from i x have fx: "fst x = newId" by simp
    have "x \<notin> set (project_messages projectId st)"
    proof
      assume "x \<in> set (project_messages projectId st)"
      then have "(newId, snd x) \<in> set (project_messages projectId st)"
        using fx by (metis prod.collapse)
      then have "((projectId, newId), snd x) \<in> set (messages st)"
        by (simp only: project_messages_mem)
      then have "map_of (messages st) (projectId, newId) \<noteq> None"
        by (simp add: map_of_eq_None_iff image_iff) force
      with fresh show False by simp
    qed
    with xin have "x = (newId, ?doc)" by simp
    with x view show "m = ?r" by simp
  qed
  have log: "io_log ?st' = io_log st2 @ [OpAdd (MessageDoc projectId newId),
                                          OpGet (MessageDoc projectId newId)]"
    by simp
  have ts: "jprop ?r ''timestamp'' = normalizeTimestamp_get (repr now)"
    by (simp add: jget_def normalizeTimestamp_post_eq_get)
  show ?thesis
    unfolding run using list mem uniq log ts by (simp add: Let_def)
qed

theorem send_then_list_roundtrip_witness:
  "status (fst (sendMessage JDate 9 ''m2'' ''p1''
                  [(''senderId'', JStr ''bob''), (''content'', JStr ''hi'')] sample_store)) = 200
   \<and> jprop (body (fst (sendMessage JDate 9 ''m2'' ''p1''
                  [(''senderId'', JStr ''bob''), (''content'', JStr ''hi'')] sample_store)))
          ''timestamp''
       = JObj [(''_seconds'', JNum 0), (''_nanoseconds'', JNum 9000000)]"
proof -
  have ok: "status (fst (sendMessage JDate 9 ''m2'' ''p1''
                  [(''senderId'', JStr ''bob''), (''content'', JStr ''hi'')] sample_store)) = 200"
    by (simp add: sendMessage_def require_param_if require_field_def jget_def
        ensureProjectForSender_def project_get_def sample_store_def Let_def message_add_def
        message_get_def logged_def project_update_def)
  from send_then_list_roundtrip [OF ok, of insertion_order] ok show ?thesis
    by (simp add: Let_def split_def normalizeTimestamp_get_def js_rem_def)
qed

subsection \<open>Claim C9: the fields of listed and sent messages\<close>




subsection \<open>Claim C10: a sender id with white space around it\<close>

text \<open>
  Claim C10. After a successful send whose \<open>senderId\<close> has leading or trailing white space,
  into a project whose roster is an array (or that does not exist yet), the message record
  holds the trimmed \<open>senderId\<close>, the participants reported for the project contain the
  untrimmed one, and an edit or a delete of the new message by the same untrimmed \<open>senderId\<close>
  is answered with 403.
\<close>

theorem untrimmed_sender_locked_out:
  assumes ok: "status (fst (sendMessage repr now newId projectId reqbody st)) = 200"
    and sid: "jget reqbody ''senderId'' = JStr senderId"
    and ws: "trim senderId \<noteq> senderId"
    and arr: "roster st projectId = JArr xs"
    and nid: "\<not> blank_param newId"
    and e1: "jget editbody ''senderId'' = JStr senderId"
    and e2: "jget editbody ''content'' = JStr content2"
    and e3: "trim content2 \<noteq> []"
    and q: "jget query ''senderId'' = JStr senderId"
  shows "(let st' = snd (sendMessage repr now newId projectId reqbody st)
          in (\<exists>d. map_of (messages st') (projectId, newId) = Some d
                 \<and> jget d ''senderId'' = JStr (trim senderId))
           \<and> (\<exists>ys. fst (getParticipants projectId st')
                        = json_ok (JObj [(''participants'', JArr ys)])
                 \<and> JStr senderId \<in> set ys)
           \<and> status (fst (editMessage repr now2 projectId newId editbody st')) = 403
           \<and> status (fst (deleteMessage projectId newId query st')) = 403)"
proof -
  from ok obtain s content st2 where
    nb: "\<not> blank_param projectId"
    and s: "jget reqbody ''senderId'' = JStr s" and ts: "trim s \<noteq> []"
    and e: "ensureProjectForSender repr now projectId s st = (None, st2)"
    and fresh: "map_of (messages st) (projectId, newId) = None"
    and run: "sendMessage repr now newId projectId reqbody st =
       (json_ok (JObj [(''id'', JStr newId), (''senderId'', JStr (trim s)),
                       (''content'', JStr (trim content)),
                       (''timestamp'', normalizeTimestamp_post (repr now))]),
        logged (OpGet (MessageDoc projectId newId))
          (logged (OpAdd (MessageDoc projectId newId))
             (st2\<lparr>messages := messages st @
                  [((projectId, newId),
                    [(''senderId'', JStr (trim s)), (''content'', JStr (trim content)),
                     (''timestamp'', repr now)])]\<rparr>)))"
    by (rule send_success)
  from s sid have [simp]: "s = senderId" by simp
  let ?doc = "[(''senderId'', JStr (trim senderId)), (''content'', JStr (trim content)),
               (''timestamp'', repr now)]"
  let ?st' = "snd (sendMessage repr now newId projectId reqbody st)"
  have msgs: "messages ?st' = messages st @ [((projectId, newId), ?doc)]"
    and projs: "projects ?st' = projects st2"
    unfolding run by simp_all
  have stored: "map_of (messages ?st') (projectId, newId) = Some ?doc"
    unfolding msgs using fresh by (simp add: map_add_def)
  have sd: "jget ?doc ''senderId'' = JStr (trim senderId)"
    by (simp add: jget_def)
  have "roster ?st' projectId = roster st2 projectId"
    using projs by (rule roster_cong)
  also have "\<dots> = JArr (if JStr senderId \<in> set xs then xs else xs @ [JStr senderId])"
    using ensure_roster_array(2) [OF arr, of repr now senderId] e by simp
  finally have r: "roster ?st' projectId
      = JArr (if JStr senderId \<in> set xs then xs else xs @ [JStr senderId])" .
  have part: "\<exists>ys. fst (getParticipants projectId ?st')
                        = json_ok (JObj [(''participants'', JArr ys)])
                 \<and> JStr senderId \<in> set ys"
    unfolding getParticipants_roster [OF nb] r by auto
  from ts have tne: "trim senderId \<noteq> []" by simp
  have ne: "senderId \<noteq> []" using tne by auto
  have ed: "status (fst (editMessage repr now2 projectId newId editbody ?st')) = 403"
    unfolding edit_outcome [OF nb nid e1 tne e2 e3] stored using ws sd by simp
  have de: "status (fst (deleteMessage projectId newId query ?st')) = 403"
    unfolding delete_outcome [OF nb nid q tne] stored using ws sd by simp
  from stored sd part ed de show ?thesis
    by (simp add: Let_def)
qed

theorem untrimmed_sender_locked_out_witness:
  "status (fst (sendMessage JDate 9 ''m2'' ''p1''
                  [(''senderId'', JStr '' alice''), (''content'', JStr ''hi'')] sample_store)) = 200
   \<and> status (fst (editMessage JDate 10 ''p1'' ''m2''
                  [(''senderId'', JStr '' alice''), (''content'', JStr ''bye'')]
                  (snd (sendMessage JDate 9 ''m2'' ''p1''
                          [(''senderId'', JStr '' alice''), (''content'', JStr ''hi'')]
                          sample_store)))) = 403
   \<and> status (fst (deleteMessage ''p1'' ''m2'' [(''senderId'', JStr '' alice'')]
                  (snd (sendMessage JDate 9 ''m2'' ''p1''
                          [(''senderId'', JStr '' alice''), (''content'', JStr ''hi'')]
                          sample_store)))) = 403"
proof -
  have ok: "status (fst (sendMessage JDate 9 ''m2'' ''p1''
                  [(''senderId'', JStr '' alice''), (''content'', JStr ''hi'')] sample_store)) = 200"
    unfolding send_untrimmed_sample by simp
  have h: "jget [(''senderId'', JStr '' alice''), (''content'', JStr ''hi'')] ''senderId''
             = JStr '' alice''"
    "trim '' alice'' \<noteq> '' alice''"
    "roster sample_store ''p1'' = JArr [JStr ''alice'']"
    "\<not> blank_param ''m2''"
    "jget [(''senderId'', JStr '' alice''), (''content'', JStr ''bye'')] ''senderId''
             = JStr '' alice''"
    "jget [(''senderId'', JStr '' alice''), (''content'', JStr ''bye'')] ''content'' = JStr ''bye''"
    "trim ''bye'' \<noteq> []"
    "jget [(''senderId'', JStr '' alice'')] ''senderId'' = JStr '' alice''"
    by (simp_all add: jget_def roster_def sample_store_def blank_param_def trim_def is_ws_def)
  from untrimmed_sender_locked_out [OF ok h, of 10] ok show ?thesis
    by (simp add: Let_def)
qed

end
